theory Spec2Isabelle
  imports Complex_Main "HOL-Library.Multiset" "HOL-Library.Sublist"
begin

section \<open>Password validators of \<^verbatim>\<open>metashare/accounts/django_password_validators.py\<close>\<close>

text \<open>
  A shallow embedding of the module. Python objects become datatypes, every
  \<^verbatim>\<open>raise\<close> becomes the left summand of a result, every loop a recursive function.

  Conventions of the embedding:
  \<^item> a Python string is a HOL \<^typ>\<open>string\<close>, its characters read as code points; the
    tables that classify characters and give the lower case are a parameter of the
    model (see the string operations);
  \<^item> a Python number is \<open>PyInt\<close> of an unbounded integer or \<open>PyFloat\<close> of the
    rational number the float stands for, and arithmetic on floats is exact. The
    similarity ratio \<^verbatim>\<open>2.0 * matches / length\<close> is compared with the thresholds
    \<open>0\<close>, \<open>1\<close> and \<open>1/2\<close> in the properties below, where the rounded quotient and the
    exact one agree;
  \<^item> translation (\<^verbatim>\<open>ugettext_lazy\<close>) is the identity on message identifiers.
\<close>

subsection \<open>Values, messages and exceptions\<close>

datatype py_value =
    PyInt int
  | PyFloat rat
  | PyStr string
  | PyTuple "string list"

text \<open>\<open>Text\<close> is a (lazily) translated string, \<open>Plural\<close> the result of
  \<^verbatim>\<open>ungettext_lazy(singular, plural, number_key)\<close>.\<close>

datatype message =
    Text string
  | Plural string string string

text \<open>\<^verbatim>\<open>ValidationError(message, code=..., params=...)\<close> and
  \<^verbatim>\<open>ValidationError(errors)\<close> for a list of errors.\<close>

datatype validation_error =
    ValidationError message string "(string \<times> py_value) list"
  | ValidationErrors "validation_error list"

fun error_code :: "validation_error \<Rightarrow> string option" where
  "error_code (ValidationError m c p) = Some c"
| "error_code (ValidationErrors es) = None"

datatype exception =
    Raised validation_error
  | ImproperlyConfigured string
  | TypeError
  | FieldDoesNotExist
  | IOError

text \<open>The value of a number, for comparisons; \<open>None\<close> for a value that is no number.\<close>

fun py_number :: "py_value \<Rightarrow> rat option" where
  "py_number (PyInt n) = Some (of_int n)"
| "py_number (PyFloat r) = Some r"
| "py_number (PyStr s) = None"
| "py_number (PyTuple t) = None"

subsection \<open>String operations\<close>

text \<open>
  How characters are classified (\<^verbatim>\<open>isdigit\<close>, \<^verbatim>\<open>isspace\<close>, \<^verbatim>\<open>isupper\<close>, \<^verbatim>\<open>islower\<close>, the
  class \<^verbatim>\<open>\w\<close> of \<^verbatim>\<open>re\<close>) and how a string is put in lower case belong to the interpreter
  and its character database, not to the module: they are taken as the parameter \<open>T\<close>
  of everything that uses them, and the properties hold for every \<open>T\<close>. \<open>lower\<close> is a
  function on strings, since lower case need not be taken character by character.
\<close>

record unicode_tables =
  isdigit_char :: "char \<Rightarrow> bool"
  isspace_char :: "char \<Rightarrow> bool"
  isupper_char :: "char \<Rightarrow> bool"
  islower_char :: "char \<Rightarrow> bool"
  is_word_char :: "char \<Rightarrow> bool"
  lower :: "string \<Rightarrow> string"

definition ascii_uppercase :: string where
  "ascii_uppercase = ''ABCDEFGHIJKLMNOPQRSTUVWXYZ''"

definition ascii_lowercase :: string where
  "ascii_lowercase = ''abcdefghijklmnopqrstuvwxyz''"

definition ascii_digits :: string where
  "ascii_digits = ''0123456789''"

text \<open>\<^verbatim>\<open>string.punctuation\<close>; the quotes, the backslash and the backquote by their codes.\<close>

definition punctuation :: string where
  "punctuation = ''!'' @ [CHR 0x22] @ ''#$%&'' @ [CHR 0x27] @ ''()*+,-./:;<=>?@['' @
     [CHR 0x5C] @ '']^_'' @ [CHR 0x60] @ ''{|}~''"

text \<open>
  The tables of Python 3 for the characters of HOL, read as the code points below 256:
  the digits include the superscripts, the whitespace the separators \<open>1C\<close> to \<open>1F\<close>, the
  next line and the no-break space, the letters those of Latin-1. (Without the flag
  UNICODE, \<^verbatim>\<open>re\<close> of Python 2 takes the ASCII word characters only: one more table.)
\<close>

definition latin1_digits :: string where
  "latin1_digits = ascii_digits @ [CHR 0xB2, CHR 0xB3, CHR 0xB9]"

definition latin1_whitespace :: string where
  "latin1_whitespace =
     [CHR 0x20, CHR 0x09, CHR 0x0A, CHR 0x0B, CHR 0x0C, CHR 0x0D, CHR 0x1C, CHR 0x1D,
      CHR 0x1E, CHR 0x1F, CHR 0x85, CHR 0xA0]"

definition latin1_capitals :: string where
  "latin1_capitals =
     [CHR 0xC0, CHR 0xC1, CHR 0xC2, CHR 0xC3, CHR 0xC4, CHR 0xC5, CHR 0xC6, CHR 0xC7,
      CHR 0xC8, CHR 0xC9, CHR 0xCA, CHR 0xCB, CHR 0xCC, CHR 0xCD, CHR 0xCE, CHR 0xCF,
      CHR 0xD0, CHR 0xD1, CHR 0xD2, CHR 0xD3, CHR 0xD4, CHR 0xD5, CHR 0xD6, CHR 0xD8,
      CHR 0xD9, CHR 0xDA, CHR 0xDB, CHR 0xDC, CHR 0xDD, CHR 0xDE]"

definition latin1_smalls :: string where
  "latin1_smalls =
     [CHR 0xE0, CHR 0xE1, CHR 0xE2, CHR 0xE3, CHR 0xE4, CHR 0xE5, CHR 0xE6, CHR 0xE7,
      CHR 0xE8, CHR 0xE9, CHR 0xEA, CHR 0xEB, CHR 0xEC, CHR 0xED, CHR 0xEE, CHR 0xEF,
      CHR 0xF0, CHR 0xF1, CHR 0xF2, CHR 0xF3, CHR 0xF4, CHR 0xF5, CHR 0xF6, CHR 0xF8,
      CHR 0xF9, CHR 0xFA, CHR 0xFB, CHR 0xFC, CHR 0xFD, CHR 0xFE]"

text \<open>The small letters that are the lower case of no capital of Latin-1.\<close>

definition latin1_uncased_smalls :: string where
  "latin1_uncased_smalls = [CHR 0xAA, CHR 0xB5, CHR 0xBA, CHR 0xDF, CHR 0xFF]"

text \<open>The numeric characters that are no digits: the fractions.\<close>

definition latin1_fractions :: string where
  "latin1_fractions = [CHR 0xBC, CHR 0xBD, CHR 0xBE]"

definition latin1_lower_char :: "char \<Rightarrow> char" where
  "latin1_lower_char c =
     (case map_of (zip (ascii_uppercase @ latin1_capitals) (ascii_lowercase @ latin1_smalls)) c of
        Some l \<Rightarrow> l
      | None \<Rightarrow> c)"

definition latin1_tables :: unicode_tables where
  "latin1_tables =
     \<lparr>isdigit_char = (\<lambda>c. c \<in> set latin1_digits),
      isspace_char = (\<lambda>c. c \<in> set latin1_whitespace),
      isupper_char = (\<lambda>c. c \<in> set (ascii_uppercase @ latin1_capitals)),
      islower_char = (\<lambda>c. c \<in> set (ascii_lowercase @ latin1_smalls @ latin1_uncased_smalls)),
      is_word_char =
        (\<lambda>c. c \<in> set (ascii_lowercase @ ascii_uppercase @ latin1_digits @ ''_'' @
                       latin1_capitals @ latin1_smalls @ latin1_uncased_smalls @
                       latin1_fractions)),
      lower = map latin1_lower_char\<rparr>"

text \<open>\<^verbatim>\<open>password.isdigit()\<close>: every character is a digit and there is at least one.\<close>

definition isdigit :: "unicode_tables \<Rightarrow> string \<Rightarrow> bool" where
  "isdigit T s = (s \<noteq> [] \<and> list_all (isdigit_char T) s)"

text \<open>\<^verbatim>\<open>s.strip()\<close>: without the whitespace at either end.\<close>

definition strip :: "unicode_tables \<Rightarrow> string \<Rightarrow> string" where
  "strip T s = rev (dropWhile (isspace_char T) (rev (dropWhile (isspace_char T) s)))"

text \<open>\<^verbatim>\<open>sub in s\<close>: \<open>sub\<close> occurs in \<open>s\<close> as a block of consecutive characters.\<close>

fun contains :: "'a list \<Rightarrow> 'a list \<Rightarrow> bool" where
  "contains [] sub = (sub = [])"
| "contains (x # xs) sub = (prefix sub (x # xs) \<or> contains xs sub)"

text \<open>\<^verbatim>\<open>c * n\<close> for a one-character string \<open>c\<close>: empty when \<open>n\<close> is not positive.\<close>

definition str_mul :: "char \<Rightarrow> int \<Rightarrow> string" where
  "str_mul c n = replicate (nat n) c"

text \<open>\<^verbatim>\<open>re.split('\W+', value)\<close>: the pieces between the maximal runs of non-word
  characters, the empty pieces at either end included.\<close>

function re_split_nonword :: "unicode_tables \<Rightarrow> string \<Rightarrow> string list" where
  "re_split_nonword T s =
     takeWhile (is_word_char T) s #
       (case dropWhile (is_word_char T) s of
          [] \<Rightarrow> []
        | c # r \<Rightarrow> re_split_nonword T (dropWhile (\<lambda>x. \<not> is_word_char T x) r))"
  by pat_completeness auto
termination
proof (relation "measure (\<lambda>(T, s). length s)")
  fix T :: unicode_tables and s :: string and c r
  assume a: "dropWhile (is_word_char T) s = c # r"
  have "length (dropWhile (\<lambda>x. \<not> is_word_char T x) r) \<le> length r"
    by (rule length_dropWhile_le)
  also have "length r < length (dropWhile (is_word_char T) s)"
    using a by simp
  also have "\<dots> \<le> length s"
    by (rule length_dropWhile_le)
  finally show "((T, dropWhile (\<lambda>x. \<not> is_word_char T x) r), (T, s)) \<in> measure (\<lambda>(T, s). length s)"
    by simp
qed simp

declare re_split_nonword.simps [simp del]

text \<open>Decimal rendering, for the conversion \<^verbatim>\<open>%d\<close>.\<close>

fun digits :: "nat \<Rightarrow> string" where
  "digits n =
     (if n < 10 then [ascii_digits ! n]
      else digits (n div 10) @ [ascii_digits ! (n mod 10)])"

declare digits.simps [simp del]

definition str_int :: "int \<Rightarrow> string" where
  "str_int n = (if n < 0 then ''-'' @ digits (nat (- n)) else digits (nat n))"

text \<open>\<^verbatim>\<open>'%d' % v\<close>: an integer as it is, a float truncated towards zero, anything
  else a TypeError.\<close>

fun format_d :: "py_value \<Rightarrow> exception + string" where
  "format_d (PyInt n) = Inr (str_int n)"
| "format_d (PyFloat r) = Inr (str_int (if 0 \<le> r then \<lfloor>r\<rfloor> else \<lceil>r\<rceil>))"
| "format_d (PyStr s) = Inl TypeError"
| "format_d (PyTuple t) = Inl TypeError"

text \<open>\<^verbatim>\<open>django.utils.html.escape\<close>, applied by \<^verbatim>\<open>format_html\<close> to each argument.\<close>

definition escape_char :: "char \<Rightarrow> string" where
  "escape_char c =
     (if c = CHR ''&'' then ''&amp;''
      else if c = CHR ''<'' then ''&lt;''
      else if c = CHR ''>'' then ''&gt;''
      else if c = CHR 0x22 then ''&quot;''
      else if c = CHR 0x27 then ''&#39;''
      else [c])"

definition escape :: "string \<Rightarrow> string" where
  "escape s = concat (map escape_char s)"

subsection \<open>\<^verbatim>\<open>difflib.SequenceMatcher.quick_ratio\<close>\<close>

text \<open>
  \<open>fullbcount\<close> counts the elements of \<open>b\<close>; \<open>avail\<close> holds, for the elements of \<open>a\<close>
  seen so far, how many of \<open>b\<close>'s are left (it goes negative); an element of \<open>a\<close>
  matches while the number left is positive.
\<close>

fun quick_matches :: "('a \<Rightarrow> int) \<Rightarrow> ('a \<rightharpoonup> int) \<Rightarrow> 'a list \<Rightarrow> nat \<Rightarrow> nat" where
  "quick_matches fullbcount avail [] matches = matches"
| "quick_matches fullbcount avail (elt # a) matches =
     (let numb = (case avail elt of Some n \<Rightarrow> n | None \<Rightarrow> fullbcount elt)
      in quick_matches fullbcount (avail(elt \<mapsto> numb - 1)) a
           (if 0 < numb then matches + 1 else matches))"

definition calculate_ratio :: "nat \<Rightarrow> nat \<Rightarrow> rat" where
  "calculate_ratio matches len =
     (if len \<noteq> 0 then 2 * of_nat matches / of_nat len else 1)"

definition quick_ratio :: "'a list \<Rightarrow> 'a list \<Rightarrow> rat" where
  "quick_ratio a b =
     calculate_ratio
       (quick_matches (\<lambda>elt. int (count_list b elt)) Map.empty a 0)
       (length a + length b)"

subsection \<open>User objects\<close>

text \<open>
  What the validators read of a user: \<^verbatim>\<open>getattr(user, name, None)\<close>, which is absent,
  a string, or a value of another type; and the verbose name of the model field
  \<^verbatim>\<open>user._meta.get_field(name)\<close>, which raises when the model has no such field.
\<close>

datatype attribute =
    AttrStr string
  | AttrOther

record user =
  attributes :: "string \<Rightarrow> attribute option"
  meta_fields :: "string \<Rightarrow> string option"

subsection \<open>The validator classes\<close>

text \<open>An instance holds the attributes its constructor stored, as Python values.\<close>

datatype validator =
    MinimumLengthValidator py_value
  | UserAttributeSimilarityValidator py_value py_value
  | CommonPasswordValidator "string set"
  | NumericPasswordValidator
  | AtLeastOneDigitValidator
  | AtLeastOnePunctuationCharacterValidator
  | AtLeastOneUppercaseCharacterValidator
  | AtLeastOneLowercaseCharacterValidator
  | NoRepeatsValidator py_value

text \<open>\<^verbatim>\<open>len(password) < self.min_length\<close>; a \<open>min_length\<close> that is no number is a
  TypeError, as in Python 3.\<close>

definition MinimumLengthValidator_validate :: "py_value \<Rightarrow> string \<Rightarrow> exception + unit" where
  "MinimumLengthValidator_validate min_length password =
     (case py_number min_length of
        None \<Rightarrow> Inl TypeError
      | Some m \<Rightarrow>
          if of_nat (length password) < m
          then Inl (Raised (ValidationError
                 (Plural
                    ''This password is too short. It must contain at least %(min_length)d character.''
                    ''This password is too short. It must contain at least %(min_length)d characters.''
                    ''min_length'')
                 ''password_too_short''
                 [(''min_length'', min_length)]))
          else Inr ())"

text \<open>\<^verbatim>\<open>for attribute_name in self.user_attributes\<close>: a string yields its characters,
  one by one, a tuple its elements.\<close>

fun iterate :: "py_value \<Rightarrow> exception + string list" where
  "iterate (PyStr s) = Inr (map (\<lambda>c. [c]) s)"
| "iterate (PyTuple t) = Inr t"
| "iterate (PyInt n) = Inl TypeError"
| "iterate (PyFloat r) = Inl TypeError"

text \<open>\<^verbatim>\<open>similarity > self.max_similarity or similarity == 1 or self.max_similarity == 0\<close>\<close>

definition too_similar :: "rat \<Rightarrow> py_value \<Rightarrow> exception + bool" where
  "too_similar similarity max_similarity =
     (case py_number max_similarity of
        None \<Rightarrow> Inl TypeError
      | Some m \<Rightarrow> Inr (similarity > m \<or> similarity = 1 \<or> m = 0))"

text \<open>The inner loop, over \<open>value_parts\<close>.\<close>

fun compare_parts ::
  "unicode_tables \<Rightarrow> py_value \<Rightarrow> user \<Rightarrow> string \<Rightarrow> string \<Rightarrow> string list \<Rightarrow>
   exception + unit" where
  "compare_parts T max_similarity u attribute_name password [] = Inr ()"
| "compare_parts T max_similarity u attribute_name password (value_part # value_parts) =
     (case too_similar (quick_ratio (lower T password) (lower T value_part)) max_similarity of
        Inl e \<Rightarrow> Inl e
      | Inr similar \<Rightarrow>
          if similar
          then (case meta_fields u attribute_name of
                  None \<Rightarrow> Inl FieldDoesNotExist
                | Some verbose_name \<Rightarrow>
                    Inl (Raised (ValidationError
                      (Text ''The password is too similar to the %(verbose_name)s.'')
                      ''password_too_similar''
                      [(''verbose_name'', PyStr verbose_name)])))
          else compare_parts T max_similarity u attribute_name password value_parts)"

text \<open>The outer loop, over the attribute names.\<close>

fun compare_attributes ::
  "unicode_tables \<Rightarrow> py_value \<Rightarrow> user \<Rightarrow> string \<Rightarrow> string list \<Rightarrow> exception + unit" where
  "compare_attributes T max_similarity u password [] = Inr ()"
| "compare_attributes T max_similarity u password (attribute_name # names) =
     (case attributes u attribute_name of
        Some (AttrStr v) \<Rightarrow>
          if v = [] then compare_attributes T max_similarity u password names
          else (case compare_parts T max_similarity u attribute_name password
                       (re_split_nonword T v @ [v]) of
                  Inl e \<Rightarrow> Inl e
                | Inr _ \<Rightarrow> compare_attributes T max_similarity u password names)
      | _ \<Rightarrow> compare_attributes T max_similarity u password names)"

definition UserAttributeSimilarityValidator_validate ::
  "unicode_tables \<Rightarrow> py_value \<Rightarrow> py_value \<Rightarrow> string \<Rightarrow> user option \<Rightarrow> exception + unit" where
  "UserAttributeSimilarityValidator_validate T user_attributes max_similarity password usr =
     (case usr of
        None \<Rightarrow> Inr ()
      | Some u \<Rightarrow>
          (case iterate user_attributes of
             Inl e \<Rightarrow> Inl e
           | Inr names \<Rightarrow> compare_attributes T max_similarity u password names))"

definition CommonPasswordValidator_validate ::
  "unicode_tables \<Rightarrow> string set \<Rightarrow> string \<Rightarrow> exception + unit" where
  "CommonPasswordValidator_validate T passwords password =
     (if strip T (lower T password) \<in> passwords
      then Inl (Raised (ValidationError (Text ''This password is too common.'')
             ''password_too_common'' []))
      else Inr ())"

definition NumericPasswordValidator_validate ::
  "unicode_tables \<Rightarrow> string \<Rightarrow> exception + unit" where
  "NumericPasswordValidator_validate T password =
     (if isdigit T password
      then Inl (Raised (ValidationError (Text ''This password is entirely numeric.'')
             ''password_entirely_numeric'' []))
      else Inr ())"

definition AtLeastOneDigitValidator_validate ::
  "unicode_tables \<Rightarrow> string \<Rightarrow> exception + unit" where
  "AtLeastOneDigitValidator_validate T password =
     (if \<not> list_ex (isdigit_char T) password
      then Inl (Raised (ValidationError (Text ''This password does not contain a digit.'')
             ''password_without_digit'' []))
      else Inr ())"

definition AtLeastOnePunctuationCharacterValidator_validate ::
  "string \<Rightarrow> exception + unit" where
  "AtLeastOnePunctuationCharacterValidator_validate password =
     (if \<not> list_ex (\<lambda>c. c = CHR '' '' \<or> c \<in> set punctuation) password
      then Inl (Raised (ValidationError
             (Text ''This password does not contain a punctuation character.'')
             ''password_without_punctuation'' []))
      else Inr ())"

definition AtLeastOneUppercaseCharacterValidator_validate ::
  "unicode_tables \<Rightarrow> string \<Rightarrow> exception + unit" where
  "AtLeastOneUppercaseCharacterValidator_validate T password =
     (if \<not> list_ex (isupper_char T) password
      then Inl (Raised (ValidationError
             (Text ''This password does not contain an uppercase character.'')
             ''password_without_uppercase'' []))
      else Inr ())"

definition AtLeastOneLowercaseCharacterValidator_validate ::
  "unicode_tables \<Rightarrow> string \<Rightarrow> exception + unit" where
  "AtLeastOneLowercaseCharacterValidator_validate T password =
     (if \<not> list_ex (islower_char T) password
      then Inl (Raised (ValidationError
             (Text ''This password does not contain a lowercase character.'')
             ''password_without_lowercase'' []))
      else Inr ())"

text \<open>
  \<^verbatim>\<open>chars = set(password)\<close>, then the first \<open>c\<close> with \<^verbatim>\<open>c*(self.max_repeats+1) in password\<close>
  raises; the error does not depend on \<open>c\<close>, so the order in which the set is
  traversed does not show. The product is evaluated for the first character
  already, and is a TypeError unless \<open>max_repeats\<close> is an integer.
\<close>

definition NoRepeatsValidator_validate :: "py_value \<Rightarrow> string \<Rightarrow> exception + unit" where
  "NoRepeatsValidator_validate max_repeats password =
     (let chars = remdups password in
      if chars = [] then Inr ()
      else (case max_repeats of
              PyInt n \<Rightarrow>
                if list_ex (\<lambda>c. contains password (str_mul c (n + 1))) chars
                then Inl (Raised (ValidationError
                       (Text (''This password contains a character repeated more than '' @
                              str_int n @ '' times in a row.''))
                       ''password_contains_repeats'' []))
                else Inr ()
            | _ \<Rightarrow> Inl TypeError))"

text \<open>The method \<^verbatim>\<open>validate(password, user)\<close> of each class.\<close>

fun validate ::
  "unicode_tables \<Rightarrow> validator \<Rightarrow> string \<Rightarrow> user option \<Rightarrow> exception + unit" where
  "validate T (MinimumLengthValidator min_length) password usr =
     MinimumLengthValidator_validate min_length password"
| "validate T (UserAttributeSimilarityValidator user_attributes max_similarity) password usr =
     UserAttributeSimilarityValidator_validate T user_attributes max_similarity password usr"
| "validate T (CommonPasswordValidator passwords) password usr =
     CommonPasswordValidator_validate T passwords password"
| "validate T NumericPasswordValidator password usr =
     NumericPasswordValidator_validate T password"
| "validate T AtLeastOneDigitValidator password usr =
     AtLeastOneDigitValidator_validate T password"
| "validate T AtLeastOnePunctuationCharacterValidator password usr =
     AtLeastOnePunctuationCharacterValidator_validate password"
| "validate T AtLeastOneUppercaseCharacterValidator password usr =
     AtLeastOneUppercaseCharacterValidator_validate T password"
| "validate T AtLeastOneLowercaseCharacterValidator password usr =
     AtLeastOneLowercaseCharacterValidator_validate T password"
| "validate T (NoRepeatsValidator max_repeats) password usr =
     NoRepeatsValidator_validate max_repeats password"

text \<open>The method \<^verbatim>\<open>get_help_text()\<close>. The pluralised text takes the singular when the
  number equals 1; its formatting catches the TypeError of a \<open>min_length\<close> that is no
  number and leaves the text, the plural, as it is. The formatting of
  \<open>NoRepeatsValidator\<close> is that of an ordinary string.\<close>

fun get_help_text :: "validator \<Rightarrow> exception + string" where
  "get_help_text (MinimumLengthValidator min_length) =
     (case format_d min_length of
        Inl e \<Rightarrow> Inr ''Your password must contain at least %(min_length)d characters.''
      | Inr d \<Rightarrow>
          Inr (''Your password must contain at least '' @ d @
               (if py_number min_length = Some 1 then '' character.'' else '' characters.'')))"
| "get_help_text (UserAttributeSimilarityValidator user_attributes max_similarity) =
     Inr (''Your password can'' @ [CHR 0x27] @
          ''t be too similar to your other personal information.'')"
| "get_help_text (CommonPasswordValidator passwords) =
     Inr (''Your password can'' @ [CHR 0x27] @ ''t be a commonly used password.'')"
| "get_help_text NumericPasswordValidator =
     Inr (''Your password can'' @ [CHR 0x27] @ ''t be entirely numeric.'')"
| "get_help_text AtLeastOneDigitValidator =
     Inr ''Your password must contain at least one digit.''"
| "get_help_text AtLeastOnePunctuationCharacterValidator =
     Inr ''Your password must contain at least one punctuation character.''"
| "get_help_text AtLeastOneUppercaseCharacterValidator =
     Inr ''Your password must contain at least one uppercase character.''"
| "get_help_text AtLeastOneLowercaseCharacterValidator =
     Inr ''Your password must contain at least one lowercase character.''"
| "get_help_text (NoRepeatsValidator max_repeats) =
     (case format_d max_repeats of
        Inl e \<Rightarrow> Inl e
      | Inr d \<Rightarrow>
          Inr (''Your password can'' @ [CHR 0x27] @
               ''t contain a character repeated more than '' @ d @ '' times in a row.''))"

subsection \<open>The registry: \<^verbatim>\<open>get_password_validators\<close>\<close>

text \<open>The classes a name can resolve to.\<close>

datatype klass =
    MinimumLengthValidator_class
  | UserAttributeSimilarityValidator_class
  | CommonPasswordValidator_class
  | NumericPasswordValidator_class
  | AtLeastOneDigitValidator_class
  | AtLeastOnePunctuationCharacterValidator_class
  | AtLeastOneUppercaseCharacterValidator_class
  | AtLeastOneLowercaseCharacterValidator_class
  | NoRepeatsValidator_class

text \<open>A configuration entry: \<^verbatim>\<open>validator['NAME']\<close> and \<^verbatim>\<open>validator.get('OPTIONS', {})\<close>, the
  dictionary being an association list read through \<^const>\<open>map_of\<close>.\<close>

record validator_config =
  NAME :: string
  OPTIONS :: "(string \<times> py_value) list option"

text \<open>
  What the module takes from its surroundings: Django's \<^verbatim>\<open>import_string\<close> (\<open>None\<close> is
  its ImportError), the text files by path, as lists of lines (\<open>None\<close> is the IOError
  of \<^verbatim>\<open>open\<close>), the path of the shipped password list, the setting
  \<^verbatim>\<open>AUTH_PASSWORD_VALIDATORS\<close> when it is set, and the character tables.
\<close>

record environment =
  import_string :: "string \<Rightarrow> klass option"
  files :: "string \<Rightarrow> string list option"
  DEFAULT_PASSWORD_LIST_PATH :: string
  AUTH_PASSWORD_VALIDATORS :: "validator_config list option"
  unicode :: unicode_tables

definition DEFAULT_USER_ATTRIBUTES :: py_value where
  "DEFAULT_USER_ATTRIBUTES = PyStr ''username''"

text \<open>Keyword arguments: a keyword that is no parameter of the constructor is a
  TypeError; a parameter without argument takes its default.\<close>

definition accepts :: "string list \<Rightarrow> (string \<times> py_value) list \<Rightarrow> bool" where
  "accepts parameters kwargs = list_all (\<lambda>k. k \<in> set parameters) (map fst kwargs)"

definition argument :: "(string \<times> py_value) list \<Rightarrow> string \<Rightarrow> py_value \<Rightarrow> py_value" where
  "argument kwargs name dflt = (case map_of kwargs name of Some v \<Rightarrow> v | None \<Rightarrow> dflt)"

text \<open>\<^verbatim>\<open>CommonPasswordValidator.__init__\<close>: the lines of the file, gzipped or not, each
  stripped, as a set.\<close>

definition CommonPasswordValidator_init :: "environment \<Rightarrow> py_value \<Rightarrow> exception + validator" where
  "CommonPasswordValidator_init env password_list_path =
     (case password_list_path of
        PyStr path \<Rightarrow>
          (case files env path of
             None \<Rightarrow> Inl IOError
           | Some common_passwords_lines \<Rightarrow>
               Inr (CommonPasswordValidator
                      (set (map (strip (unicode env)) common_passwords_lines))))
      | _ \<Rightarrow> Inl TypeError)"

text \<open>\<^verbatim>\<open>klass(**options)\<close>\<close>

fun construct :: "environment \<Rightarrow> klass \<Rightarrow> (string \<times> py_value) list \<Rightarrow> exception + validator" where
  "construct env MinimumLengthValidator_class kwargs =
     (if accepts [''min_length''] kwargs
      then Inr (MinimumLengthValidator (argument kwargs ''min_length'' (PyInt 8)))
      else Inl TypeError)"
| "construct env UserAttributeSimilarityValidator_class kwargs =
     (if accepts [''user_attributes'', ''max_similarity''] kwargs
      then Inr (UserAttributeSimilarityValidator
                  (argument kwargs ''user_attributes'' DEFAULT_USER_ATTRIBUTES)
                  (argument kwargs ''max_similarity'' (PyFloat (1 / 2))))
      else Inl TypeError)"
| "construct env CommonPasswordValidator_class kwargs =
     (if accepts [''password_list_path''] kwargs
      then CommonPasswordValidator_init env
             (argument kwargs ''password_list_path'' (PyStr (DEFAULT_PASSWORD_LIST_PATH env)))
      else Inl TypeError)"
| "construct env NumericPasswordValidator_class kwargs =
     (if accepts [] kwargs then Inr NumericPasswordValidator else Inl TypeError)"
| "construct env AtLeastOneDigitValidator_class kwargs =
     (if accepts [] kwargs then Inr AtLeastOneDigitValidator else Inl TypeError)"
| "construct env AtLeastOnePunctuationCharacterValidator_class kwargs =
     (if accepts [] kwargs then Inr AtLeastOnePunctuationCharacterValidator else Inl TypeError)"
| "construct env AtLeastOneUppercaseCharacterValidator_class kwargs =
     (if accepts [] kwargs then Inr AtLeastOneUppercaseCharacterValidator else Inl TypeError)"
| "construct env AtLeastOneLowercaseCharacterValidator_class kwargs =
     (if accepts [] kwargs then Inr AtLeastOneLowercaseCharacterValidator else Inl TypeError)"
| "construct env NoRepeatsValidator_class kwargs =
     (if accepts [''max_repeats''] kwargs
      then Inr (NoRepeatsValidator (argument kwargs ''max_repeats'' (PyInt 2)))
      else Inl TypeError)"

definition options :: "validator_config \<Rightarrow> (string \<times> py_value) list" where
  "options config = (case OPTIONS config of None \<Rightarrow> [] | Some kwargs \<Rightarrow> kwargs)"

definition import_error_message :: "string \<Rightarrow> string" where
  "import_error_message name =
     ''The module in NAME could not be imported: '' @ name @
     ''. Check your AUTH_PASSWORD_VALIDATORS setting.''"

text \<open>The loop of \<^verbatim>\<open>get_password_validators\<close>, with the list \<open>validators\<close> built so far.\<close>

fun get_password_validators_loop ::
  "environment \<Rightarrow> validator_config list \<Rightarrow> validator list \<Rightarrow> exception + validator list" where
  "get_password_validators_loop env [] validators = Inr validators"
| "get_password_validators_loop env (config # validator_config) validators =
     (case import_string env (NAME config) of
        None \<Rightarrow> Inl (ImproperlyConfigured (import_error_message (NAME config)))
      | Some klass \<Rightarrow>
          (case construct env klass (options config) of
             Inl e \<Rightarrow> Inl e
           | Inr v \<Rightarrow> get_password_validators_loop env validator_config (validators @ [v])))"

definition get_password_validators ::
  "environment \<Rightarrow> validator_config list \<Rightarrow> exception + validator list" where
  "get_password_validators env validator_config =
     get_password_validators_loop env validator_config []"

definition module_path :: string where
  "module_path = ''metashare.accounts.django_password_validators.''"

definition DEFAULT_AUTH_PASSWORD_VALIDATORS :: "validator_config list" where
  "DEFAULT_AUTH_PASSWORD_VALIDATORS =
     [\<lparr>NAME = module_path @ ''UserAttributeSimilarityValidator'',
       OPTIONS = Some [(''max_similarity'', PyFloat (1 / 2))]\<rparr>,
      \<lparr>NAME = module_path @ ''MinimumLengthValidator'',
       OPTIONS = Some [(''min_length'', PyInt 10)]\<rparr>,
      \<lparr>NAME = module_path @ ''CommonPasswordValidator'', OPTIONS = None\<rparr>,
      \<lparr>NAME = module_path @ ''NumericPasswordValidator'', OPTIONS = None\<rparr>,
      \<lparr>NAME = module_path @ ''AtLeastOneDigitValidator'', OPTIONS = None\<rparr>,
      \<lparr>NAME = module_path @ ''AtLeastOnePunctuationCharacterValidator'', OPTIONS = None\<rparr>,
      \<lparr>NAME = module_path @ ''AtLeastOneUppercaseCharacterValidator'', OPTIONS = None\<rparr>,
      \<lparr>NAME = module_path @ ''AtLeastOneLowercaseCharacterValidator'', OPTIONS = None\<rparr>,
      \<lparr>NAME = module_path @ ''NoRepeatsValidator'',
       OPTIONS = Some [(''max_repeats'', PyInt 2)]\<rparr>]"

text \<open>The value \<^verbatim>\<open>lru_cache\<close> keeps is the value of the first call; the environment
  does not change, so every call computes it.\<close>

definition get_default_password_validators :: "environment \<Rightarrow> exception + validator list" where
  "get_default_password_validators env =
     get_password_validators env
       (case AUTH_PASSWORD_VALIDATORS env of
          None \<Rightarrow> DEFAULT_AUTH_PASSWORD_VALIDATORS
        | Some validator_config \<Rightarrow> validator_config)"

text \<open>An environment in which the names of this module's classes resolve, and one
  password file exists.\<close>

definition module_classes :: "(string \<times> klass) list" where
  "module_classes =
     [(module_path @ ''MinimumLengthValidator'', MinimumLengthValidator_class),
      (module_path @ ''UserAttributeSimilarityValidator'', UserAttributeSimilarityValidator_class),
      (module_path @ ''CommonPasswordValidator'', CommonPasswordValidator_class),
      (module_path @ ''NumericPasswordValidator'', NumericPasswordValidator_class),
      (module_path @ ''AtLeastOneDigitValidator'', AtLeastOneDigitValidator_class),
      (module_path @ ''AtLeastOnePunctuationCharacterValidator'',
         AtLeastOnePunctuationCharacterValidator_class),
      (module_path @ ''AtLeastOneUppercaseCharacterValidator'',
         AtLeastOneUppercaseCharacterValidator_class),
      (module_path @ ''AtLeastOneLowercaseCharacterValidator'',
         AtLeastOneLowercaseCharacterValidator_class),
      (module_path @ ''NoRepeatsValidator'', NoRepeatsValidator_class)]"

definition example_environment :: environment where
  "example_environment =
     \<lparr>import_string = map_of module_classes,
      files = [''common-passwords.txt.gz'' \<mapsto> [''password'', ''123456'']],
      DEFAULT_PASSWORD_LIST_PATH = ''common-passwords.txt.gz'',
      AUTH_PASSWORD_VALIDATORS = None,
      unicode = latin1_tables\<rparr>"

subsection \<open>The orchestrator: \<^verbatim>\<open>validate_password\<close>\<close>

text \<open>
  A validator is any object with a method \<open>validate\<close>; the orchestrator is defined
  for an arbitrary type \<open>'v\<close> of validators and the function \<open>validate_method\<close> that
  calls the method. The loop carries the list \<open>errors\<close> of the source and, so that
  the calls can be spoken of, the list \<open>called\<close> of the validators whose method has
  been called. \<^verbatim>\<open>except ValidationError\<close> catches \<open>Raised\<close> only: any other exception
  leaves the loop.
\<close>

fun validate_password_loop ::
  "('v \<Rightarrow> string \<Rightarrow> 'u \<Rightarrow> exception + unit) \<Rightarrow> string \<Rightarrow> 'u \<Rightarrow> 'v list \<Rightarrow>
   'v list \<Rightarrow> validation_error list \<Rightarrow> 'v list \<times> (exception + validation_error list)" where
  "validate_password_loop validate_method password usr [] called errors = (called, Inr errors)"
| "validate_password_loop validate_method password usr (v # password_validators) called errors =
     (case validate_method v password usr of
        Inr _ \<Rightarrow>
          validate_password_loop validate_method password usr password_validators
            (called @ [v]) errors
      | Inl (Raised error) \<Rightarrow>
          validate_password_loop validate_method password usr password_validators
            (called @ [v]) (errors @ [error])
      | Inl e \<Rightarrow> (called @ [v], Inl e))"

text \<open>\<open>default_validators\<close> is the result of \<^verbatim>\<open>get_default_password_validators()\<close>, used
  when \<open>password_validators\<close> is \<open>None\<close>. The result is the list of validators called
  and the outcome: \<open>Inr ()\<close> for the return of \<open>None\<close>.\<close>

definition validate_password ::
  "('v \<Rightarrow> string \<Rightarrow> 'u \<Rightarrow> exception + unit) \<Rightarrow> (exception + 'v list) \<Rightarrow>
   string \<Rightarrow> 'u \<Rightarrow> 'v list option \<Rightarrow> 'v list \<times> (exception + unit)" where
  "validate_password validate_method default_validators password usr password_validators =
     (case (case password_validators of
              None \<Rightarrow> default_validators
            | Some vs \<Rightarrow> Inr vs) of
        Inl e \<Rightarrow> ([], Inl e)
      | Inr vs \<Rightarrow>
          (case validate_password_loop validate_method password usr vs [] [] of
             (called, Inl e) \<Rightarrow> (called, Inl e)
           | (called, Inr errors) \<Rightarrow>
               if errors \<noteq> [] then (called, Inl (Raised (ValidationErrors errors)))
               else (called, Inr ())))"

subsection \<open>The help texts\<close>

fun help_texts_loop ::
  "('v \<Rightarrow> exception + string) \<Rightarrow> 'v list \<Rightarrow> string list \<Rightarrow> exception + string list" where
  "help_texts_loop help_method [] help_texts = Inr help_texts"
| "help_texts_loop help_method (v # password_validators) help_texts =
     (case help_method v of
        Inl e \<Rightarrow> Inl e
      | Inr help_text \<Rightarrow>
          help_texts_loop help_method password_validators (help_texts @ [help_text]))"

definition password_validators_help_texts ::
  "('v \<Rightarrow> exception + string) \<Rightarrow> (exception + 'v list) \<Rightarrow> 'v list option \<Rightarrow>
   exception + string list" where
  "password_validators_help_texts help_method default_validators password_validators =
     (case (case password_validators of
              None \<Rightarrow> default_validators
            | Some vs \<Rightarrow> Inr vs) of
        Inl e \<Rightarrow> Inl e
      | Inr vs \<Rightarrow> help_texts_loop help_method vs [])"

text \<open>\<^verbatim>\<open>format_html_join('', '<li>{}</li>', ...)\<close> escapes each help text and joins the
  items with the empty separator; \<^verbatim>\<open>format_html('<ul>{}</ul>', help_items)\<close> leaves
  the joined items, which are marked safe, as they are.\<close>

definition format_html_join_li :: "string list \<Rightarrow> string" where
  "format_html_join_li help_texts =
     concat (map (\<lambda>help_text. ''<li>'' @ escape help_text @ ''</li>'') help_texts)"

definition password_validators_help_text_html ::
  "('v \<Rightarrow> exception + string) \<Rightarrow> (exception + 'v list) \<Rightarrow> 'v list option \<Rightarrow>
   exception + string" where
  "password_validators_help_text_html help_method default_validators password_validators =
     (case password_validators_help_texts help_method default_validators password_validators of
        Inl e \<Rightarrow> Inl e
      | Inr help_texts \<Rightarrow>
          if help_texts = [] then Inr ''''
          else Inr (''<ul>'' @ format_html_join_li help_texts @ ''</ul>''))"

subsection \<open>Notions used to state the properties\<close>

text \<open>A call of \<open>validate\<close> fails with a code when it raises a ValidationError of that
  code; it passes when it returns.\<close>

definition fails_with :: "exception + unit \<Rightarrow> string \<Rightarrow> bool" where
  "fails_with outcome c =
     (case outcome of Inl (Raised error) \<Rightarrow> error_code error = Some c | _ \<Rightarrow> False)"

definition passes :: "exception + unit \<Rightarrow> bool" where
  "passes outcome = (outcome = Inr ())"

text \<open>The outcomes the validator interface allows: a return or a ValidationError.\<close>

fun conforms :: "exception + unit \<Rightarrow> bool" where
  "conforms (Inr _) = True"
| "conforms (Inl (Raised error)) = True"
| "conforms (Inl _) = False"

text \<open>The ValidationErrors the validators raise, in the order of the validators.\<close>

fun raised :: "exception + unit \<Rightarrow> validation_error list" where
  "raised (Inl (Raised error)) = [error]"
| "raised _ = []"

definition raised_errors ::
  "('v \<Rightarrow> string \<Rightarrow> 'u \<Rightarrow> exception + unit) \<Rightarrow> string \<Rightarrow> 'u \<Rightarrow> 'v list \<Rightarrow> validation_error list" where
  "raised_errors validate_method password usr vs =
     concat (map (\<lambda>v. raised (validate_method v password usr)) vs)"

text \<open>The strings a password is compared with: for each attribute that holds a
  non-empty string, its parts and the string itself.\<close>

definition compared_values :: "unicode_tables \<Rightarrow> user \<Rightarrow> string list \<Rightarrow> string list" where
  "compared_values T u names =
     concat (map (\<lambda>name. case attributes u name of
                             Some (AttrStr v) \<Rightarrow> if v = [] then [] else re_split_nonword T v @ [v]
                           | _ \<Rightarrow> []) names)"

text \<open>A user whose only attribute is \<open>username\<close>, a field of the model.\<close>

definition user_named :: "string \<Rightarrow> user" where
  "user_named name =
     \<lparr>attributes = [''username'' \<mapsto> AttrStr name],
      meta_fields = [''username'' \<mapsto> ''username'']\<rparr>"

text \<open>A configuration entry resolves when its name is imported.\<close>

definition resolves :: "environment \<Rightarrow> validator_config \<Rightarrow> bool" where
  "resolves env config = (import_string env (NAME config) \<noteq> None)"

text \<open>The validator an entry stands for: the class of its name, constructed with its
  options.\<close>

definition constructed :: "environment \<Rightarrow> validator_config \<Rightarrow> validator \<Rightarrow> bool" where
  "constructed env config v =
     (case import_string env (NAME config) of
        None \<Rightarrow> False
      | Some klass \<Rightarrow> construct env klass (options config) = Inr v)"



text \<open>What \<open>UserAttributeSimilarityValidator.validate\<close> raises for an attribute: the
  ValidationError naming the field, or the exception of \<^verbatim>\<open>get_field\<close>.\<close>

definition similar_error :: "user \<Rightarrow> string \<Rightarrow> exception" where
  "similar_error u name =
     (case meta_fields u name of
        None \<Rightarrow> FieldDoesNotExist
      | Some verbose_name \<Rightarrow>
          Raised (ValidationError
            (Text ''The password is too similar to the %(verbose_name)s.'')
            ''password_too_similar''
            [(''verbose_name'', PyStr verbose_name)]))"

text \<open>The parameters of the constructor of each class.\<close>

fun parameters :: "klass \<Rightarrow> string list" where
  "parameters MinimumLengthValidator_class = [''min_length'']"
| "parameters UserAttributeSimilarityValidator_class = [''user_attributes'', ''max_similarity'']"
| "parameters CommonPasswordValidator_class = [''password_list_path'']"
| "parameters NoRepeatsValidator_class = [''max_repeats'']"
| "parameters _ = []"

section \<open>Properties\<close>

subsection \<open>The quick ratio counts the common elements\<close>

lemma quick_matches_mset:
  "(\<And>e. nat (case avail e of Some n \<Rightarrow> n | None \<Rightarrow> fb e) = count M e) \<Longrightarrow>
     quick_matches fb avail a m = m + size (mset a \<inter># M)"
proof (induction a arbitrary: avail M m)
  case Nil
  then show ?case by simp
next
  case (Cons x a)
  let ?numb = "case avail x of Some n \<Rightarrow> n | None \<Rightarrow> fb x"
  let ?avail = "avail(x \<mapsto> ?numb - 1)"
  show ?case
  proof (cases "0 < ?numb")
    case True
    have inM: "x \<in># M" using Cons.prems[of x] True
      by (metis count_greater_zero_iff zero_less_nat_eq)
    have "\<And>e. nat (case ?avail e of Some n \<Rightarrow> n | None \<Rightarrow> fb e) = count (M - {#x#}) e"
      using Cons.prems True by (auto simp: nat_diff_distrib)
    from Cons.IH[OF this]
    have "quick_matches fb ?avail a (m + 1) = m + 1 + size (mset a \<inter># (M - {#x#}))" .
    moreover have "size (mset (x # a) \<inter># M) = 1 + size (mset a \<inter># (M - {#x#}))"
    proof -
      have "M = add_mset x (M - {#x#})"
        using inM by simp
      then have "mset (x # a) \<inter># M = add_mset x (mset a) \<inter># add_mset x (M - {#x#})"
        by simp
      also have "\<dots> = add_mset x (mset a \<inter># (M - {#x#}))"
        by (rule add_mset_inter_add_mset)
      finally have "mset (x # a) \<inter># M = add_mset x (mset a \<inter># (M - {#x#}))" .
      then show ?thesis by simp
    qed
    ultimately show ?thesis using True by (simp add: Let_def)
  next
    case False
    have notin: "x \<notin># M" using Cons.prems[of x] False
      by (simp add: not_in_iff)
    have "\<And>e. nat (case ?avail e of Some n \<Rightarrow> n | None \<Rightarrow> fb e) = count M e"
      using Cons.prems False notin by (auto simp: count_eq_zero_iff)
    from Cons.IH[OF this]
    have "quick_matches fb ?avail a m = m + size (mset a \<inter># M)" .
    moreover have "mset (x # a) \<inter># M = mset a \<inter># M"
      using notin by (auto simp: multiset_eq_iff not_in_iff)
    ultimately show ?thesis using False by (simp add: Let_def)
  qed
qed

lemma quick_ratio_mset:
  "quick_ratio a b = calculate_ratio (size (mset a \<inter># mset b)) (length a + length b)"
  unfolding quick_ratio_def
  by (subst quick_matches_mset [where M = "mset b"]) (simp_all add: count_mset)

lemma inter_size_full:
  "size (A \<inter># B) = size A \<Longrightarrow> size (A \<inter># B) = size B \<Longrightarrow> A = (B :: 'a multiset)"
  by (metis diff_empty inter_mset_def size_Diff_subset_Int
    size_eq_0_iff_empty subset_mset.inf.commute)

lemma ratio_eq_1:
  "(n::nat) \<noteq> 0 \<Longrightarrow> ((2 * of_nat k / of_nat n :: rat) = 1) = (2 * k = n)"
  by auto

lemma inter_size_le:
  "size (mset a \<inter># mset b) \<le> length a" "size (mset a \<inter># mset b) \<le> length b"
proof -
  show "size (mset a \<inter># mset b) \<le> length a"
    by (metis size_mset size_mset_mono subset_mset.inf_le1)
  show "size (mset a \<inter># mset b) \<le> length b"
    by (metis size_mset size_mset_mono subset_mset.inf_le2)
qed

lemma quick_ratio_eq_1_iff: "quick_ratio a b = 1 \<longleftrightarrow> mset a = mset b"
proof -
  let ?k = "size (mset a \<inter># mset b)"
  note ka = inter_size_le(1) [of a b] and kb = inter_size_le(2) [of a b]
  show ?thesis
  proof (cases "length a + length b = 0")
    case True
    then show ?thesis by (simp add: quick_ratio_mset calculate_ratio_def)
  next
    case False
    then have "quick_ratio a b = 1 \<longleftrightarrow> 2 * ?k = length a + length b"
      unfolding quick_ratio_mset calculate_ratio_def
      using ratio_eq_1 [of "length a + length b" ?k] by simp
    also have "\<dots> \<longleftrightarrow> ?k = length a \<and> ?k = length b"
      using ka kb by linarith
    also have "\<dots> \<longleftrightarrow> mset a = mset b"
    proof
      assume "?k = length a \<and> ?k = length b"
      then show "mset a = mset b"
        using inter_size_full [of "mset a" "mset b"] by simp
    next
      assume "mset a = mset b"
      then show "?k = length a \<and> ?k = length b"
        by (metis size_mset subset_mset.inf_idem)
    qed
    finally show ?thesis .
  qed
qed

lemma quick_ratio_le_1: "quick_ratio a b \<le> 1"
proof (cases "length a + length b = 0")
  case True
  then show ?thesis by (simp add: quick_ratio_mset calculate_ratio_def)
next
  case False
  define n where "n = length a + length b"
  define k where "k = size (mset a \<inter># mset b)"
  have "2 * k \<le> n"
    using inter_size_le [of a b] unfolding n_def k_def by linarith
  then have "(of_nat (2 * k) :: rat) \<le> of_nat n"
    by (rule of_nat_mono)
  moreover have "(0::rat) < of_nat n"
  proof -
    have "0 < n" using False unfolding n_def by simp
    then show ?thesis by (simp only: of_nat_0_less_iff)
  qed
  ultimately have "(2 * of_nat k / of_nat n :: rat) \<le> 1"
    by (simp add: pos_divide_le_eq)
  moreover have "quick_ratio a b = 2 * of_nat k / of_nat n"
    using False unfolding quick_ratio_mset calculate_ratio_def n_def k_def by simp
  ultimately show ?thesis by simp
qed

lemma too_similar_0: "too_similar similarity (PyInt 0) = Inr True"
  by (simp add: too_similar_def)

lemma too_similar_1:
  "too_similar (quick_ratio a b) (PyInt 1) = Inr (mset a = mset b)"
  using quick_ratio_le_1 [of a b] quick_ratio_eq_1_iff [of a b]
  by (simp add: too_similar_def not_less [symmetric])

subsection \<open>The loops of the similarity validator\<close>

lemma compare_parts_decided:
  assumes "\<And>part. too_similar (quick_ratio (lower T password) (lower T part)) m = Inr (P part)"
  shows "compare_parts T m u name password parts =
           (if \<exists>part\<in>set parts. P part then Inl (similar_error u name) else Inr ())"
  by (induction parts) (auto simp: assms similar_error_def split: option.splits)

lemma compared_values_Nil: "compared_values T u [] = []"
  by (simp add: compared_values_def)

lemma compared_values_Cons:
  "compared_values T u (name # names) =
     (case attributes u name of
        Some (AttrStr v) \<Rightarrow> if v = [] then [] else re_split_nonword T v @ [v]
      | _ \<Rightarrow> []) @ compared_values T u names"
  by (simp add: compared_values_def)

lemma compare_attributes_decided:
  assumes "\<And>part. too_similar (quick_ratio (lower T password) (lower T part)) m = Inr (P part)"
  shows "(compare_attributes T m u password names = Inr ()) =
           (\<not> (\<exists>part\<in>set (compared_values T u names). P part)) \<and>
         ((\<forall>name\<in>set names. meta_fields u name \<noteq> None) \<longrightarrow>
            fails_with (compare_attributes T m u password names) ''password_too_similar'' =
              (\<exists>part\<in>set (compared_values T u names). P part))"
proof (induction names)
  case Nil
  then show ?case by (simp add: compared_values_Nil fails_with_def)
next
  case (Cons name names)
  show ?case
  proof (cases "attributes u name")
    case None
    then show ?thesis using Cons by (simp add: compared_values_Cons)
  next
    case (Some attr)
    show ?thesis
    proof (cases attr)
      case AttrOther
      then show ?thesis using Some Cons by (simp add: compared_values_Cons)
    next
      case (AttrStr v)
      show ?thesis
      proof (cases "v = []")
        case True
        then show ?thesis using Some AttrStr Cons by (simp add: compared_values_Cons)
      next
        case False
        note parts =
          compare_parts_decided
            [where parts = "re_split_nonword T v @ [v]" and u = u and name = name, OF assms]
        show ?thesis
        proof (cases "\<exists>part\<in>set (re_split_nonword T v @ [v]). P part")
          case True
          then have hit: "\<exists>part\<in>set (compared_values T u (name # names)). P part"
            using Some AttrStr False by (auto simp: compared_values_Cons)
          have run: "compare_attributes T m u password (name # names) = Inl (similar_error u name)"
            using Some AttrStr False parts True by simp
          have "meta_fields u name \<noteq> None \<Longrightarrow>
                  fails_with (Inl (similar_error u name)) ''password_too_similar''"
            by (auto simp: similar_error_def fails_with_def)
          then show ?thesis using hit run by simp
        next
          case no: False
          then have run: "compare_attributes T m u password (name # names) =
                           compare_attributes T m u password names"
            using Some AttrStr False parts by simp
          have "(\<exists>part\<in>set (compared_values T u (name # names)). P part) =
                (\<exists>part\<in>set (compared_values T u names). P part)"
            using Some AttrStr False no by (auto simp: compared_values_Cons)
          then show ?thesis using run Cons by simp
        qed
      qed
    qed
  qed
qed

subsection \<open>Stripping leaves the core of a string\<close>

lemma trim_unique:
  assumes l: "list_all sp l" and r: "list_all sp r"
    and core: "core = [] \<or> (\<not> sp (hd core) \<and> \<not> sp (last core))"
  shows "rev (dropWhile sp (rev (dropWhile sp (l @ core @ r)))) = core"
proof (cases "core = []")
  case True
  have "\<forall>x\<in>set (l @ core @ r). sp x"
    using True l r by (auto simp: list_all_iff)
  then have e: "dropWhile sp (l @ core @ r) = []"
    by (simp only: dropWhile_eq_Nil_conv)
  show ?thesis
    unfolding e using True by simp
next
  case False
  with core have first: "\<not> sp (hd core)" and final: "\<not> sp (last core)"
    by simp_all
  have "dropWhile sp (l @ core @ r) = dropWhile sp (core @ r)"
    by (rule dropWhile_append2) (use l in \<open>auto simp: list_all_iff\<close>)
  also have "\<dots> = core @ r"
    using False first by (cases core) simp_all
  finally have front: "dropWhile sp (l @ core @ r) = core @ r" .
  have "dropWhile sp (rev r @ rev core) = dropWhile sp (rev core)"
    by (rule dropWhile_append2) (use r in \<open>auto simp: list_all_iff\<close>)
  then have "dropWhile sp (rev (core @ r)) = dropWhile sp (rev core)"
    by (simp only: rev_append)
  also have "\<dots> = rev core"
    using False final by (cases "rev core") (simp_all add: hd_rev [symmetric] del: hd_rev)
  finally show ?thesis
    unfolding front by simp
qed

lemma trim_decomposition:
  fixes sp :: "'a \<Rightarrow> bool"
  defines "core s \<equiv> rev (dropWhile sp (rev (dropWhile sp s)))"
  shows "\<exists>l r. s = l @ core s @ r \<and> list_all sp l \<and> list_all sp r \<and>
               (core s = [] \<or> (\<not> sp (hd (core s)) \<and> \<not> sp (last (core s))))"
proof -
  let ?m = "dropWhile sp s"
  let ?l = "takeWhile sp s"
  let ?r = "rev (takeWhile sp (rev ?m))"
  have "core s @ ?r = rev (takeWhile sp (rev ?m) @ dropWhile sp (rev ?m))"
    by (simp only: core_def rev_append)
  also have "\<dots> = rev (rev ?m)"
    by (simp only: takeWhile_dropWhile_id)
  also have "\<dots> = ?m"
    by simp
  finally have m: "?m = core s @ ?r"
    by (rule sym)
  have s: "s = ?l @ core s @ ?r"
    using m takeWhile_dropWhile_id [of sp s] by simp
  have l: "list_all sp ?l"
    by (auto simp: list_all_iff dest: set_takeWhileD)
  have r: "list_all sp ?r"
    by (auto simp: list_all_iff dest: set_takeWhileD)
  have ends: "\<not> sp (hd (core s)) \<and> \<not> sp (last (core s))" if ne: "core s \<noteq> []"
  proof
    from ne m have "?m \<noteq> []"
      by (metis append_is_Nil_conv)
    moreover from ne m have "hd ?m = hd (core s)"
      by (metis hd_append2)
    ultimately have "?m \<noteq> []" and "hd ?m = hd (core s)"
      by blast+
    then show "\<not> sp (hd (core s))"
      using hd_dropWhile [of sp s] by simp
    from ne have "dropWhile sp (rev ?m) \<noteq> []"
      unfolding core_def by simp
    then have "\<not> sp (hd (dropWhile sp (rev ?m)))"
      by (rule hd_dropWhile)
    then show "\<not> sp (last (core s))"
      unfolding core_def by (simp add: last_rev)
  qed
  from s l r ends show ?thesis
    by blast
qed

lemma strip_core:
  "(strip T s = core) =
     (\<exists>l r. s = l @ core @ r \<and> list_all (isspace_char T) l \<and> list_all (isspace_char T) r \<and>
            (core = [] \<or> (\<not> isspace_char T (hd core) \<and> \<not> isspace_char T (last core))))"
proof
  assume "strip T s = core"
  then show "\<exists>l r. s = l @ core @ r \<and> list_all (isspace_char T) l \<and>
               list_all (isspace_char T) r \<and>
               (core = [] \<or> (\<not> isspace_char T (hd core) \<and> \<not> isspace_char T (last core)))"
    using trim_decomposition [of s "isspace_char T"] unfolding strip_def by simp
next
  assume "\<exists>l r. s = l @ core @ r \<and> list_all (isspace_char T) l \<and>
               list_all (isspace_char T) r \<and>
               (core = [] \<or> (\<not> isspace_char T (hd core) \<and> \<not> isspace_char T (last core)))"
  then show "strip T s = core"
    unfolding strip_def using trim_unique [of "isspace_char T"] by blast
qed

subsection \<open>Containment and evaluation\<close>

lemma contains_sublist: "contains xs sub \<longleftrightarrow> sublist sub xs"
  by (induction xs) (auto simp: sublist_Cons_right)

lemma of_nat_less_of_int: "(rat_of_nat n < rat_of_int i) = (int n < i)"
  by (metis of_int_less_iff of_int_of_nat_eq)

lemmas latin1_eval =
  latin1_tables_def latin1_digits_def latin1_whitespace_def latin1_capitals_def
  latin1_smalls_def latin1_uncased_smalls_def latin1_fractions_def latin1_lower_char_def
  ascii_uppercase_def ascii_lowercase_def ascii_digits_def

subsection \<open>MinimumLengthValidator\<close>

text \<open>
  Claim C7. For every \<open>min_length\<close> and every password,
  \<open>MinimumLengthValidator.validate\<close> fails with the code \<open>password_too_short\<close> when the
  length of the password is less than \<open>min_length\<close>, and passes when the length is at
  least \<open>min_length\<close>; for an integer \<open>min_length\<close> and for a float alike.
\<close>

theorem MinimumLengthValidator_validate_length:
  "(int (length password) < min_length \<longrightarrow>
      fails_with (validate T (MinimumLengthValidator (PyInt min_length)) password usr)
        ''password_too_short'') \<and>
   (min_length \<le> int (length password) \<longrightarrow>
      passes (validate T (MinimumLengthValidator (PyInt min_length)) password usr)) \<and>
   (of_nat (length password) < r \<longrightarrow>
      fails_with (validate T (MinimumLengthValidator (PyFloat r)) password usr)
        ''password_too_short'') \<and>
   (r \<le> of_nat (length password) \<longrightarrow>
      passes (validate T (MinimumLengthValidator (PyFloat r)) password usr))"
  by (simp add: MinimumLengthValidator_validate_def fails_with_def passes_def
        of_nat_less_of_int)

theorem MinimumLengthValidator_validate_length_witness:
  "int (length ''short'') < 10 \<and>
   fails_with (validate latin1_tables (MinimumLengthValidator (PyInt 10)) ''short'' None)
     ''password_too_short'' \<and>
   10 \<le> int (length ''long enough'') \<and>
   passes (validate latin1_tables (MinimumLengthValidator (PyInt 10)) ''long enough'' None)"
proof -
  have short: "int (length ''short'') < 10"
    by simp
  have long: "10 \<le> int (length ''long enough'')"
    by simp
  note too_short =
    MinimumLengthValidator_validate_length
      [where password = "''short''" and min_length = 10 and usr = None and T = latin1_tables,
       THEN conjunct1, THEN mp, OF short]
  note enough =
    MinimumLengthValidator_validate_length
      [where password = "''long enough''" and min_length = 10 and usr = None
         and T = latin1_tables,
       THEN conjunct2, THEN conjunct1, THEN mp, OF long]
  from short too_short long enough show ?thesis
    by (intro conjI)
qed

subsection \<open>NumericPasswordValidator\<close>

text \<open>
  Claim C4, as the code has it. Whatever characters the interpreter takes for digits:
  \<open>NumericPasswordValidator.validate\<close> fails with the code \<open>password_entirely_numeric\<close>
  for every non-empty string all of whose characters are digits; it passes for the
  empty string and for every string that contains a character that is no digit.
\<close>

theorem NumericPasswordValidator_validate_digits:
  "(password \<noteq> [] \<and> (\<forall>c\<in>set password. isdigit_char T c) \<longrightarrow>
      fails_with (validate T NumericPasswordValidator password usr)
        ''password_entirely_numeric'') \<and>
   (password = [] \<or> (\<exists>c\<in>set password. \<not> isdigit_char T c) \<longrightarrow>
      passes (validate T NumericPasswordValidator password usr))"
  by (auto simp: NumericPasswordValidator_validate_def isdigit_def fails_with_def passes_def
        list_all_iff)

theorem NumericPasswordValidator_validate_digits_witness:
  "list_all (isdigit_char latin1_tables) (''2026'' @ [CHR 0xB2]) \<and>
   fails_with (validate latin1_tables NumericPasswordValidator (''2026'' @ [CHR 0xB2]) None)
     ''password_entirely_numeric'' \<and>
   list_ex (\<lambda>c. \<not> isdigit_char latin1_tables c) ''2026x1103'' \<and>
   passes (validate latin1_tables NumericPasswordValidator ''2026x1103'' None)"
proof -
  have all_digits: "list_all (isdigit_char latin1_tables) (''2026'' @ [CHR 0xB2])"
    by (simp add: latin1_eval)
  then have digits: "''2026'' @ [CHR 0xB2] \<noteq> [] \<and>
                     (\<forall>c\<in>set (''2026'' @ [CHR 0xB2]). isdigit_char latin1_tables c)"
    unfolding list_all_iff by simp
  have a_letter: "list_ex (\<lambda>c. \<not> isdigit_char latin1_tables c) ''2026x1103''"
    by (simp add: latin1_eval)
  then have letter: "\<exists>c\<in>set ''2026x1103''. \<not> isdigit_char latin1_tables c"
    unfolding list_ex_iff .
  note numeric =
    NumericPasswordValidator_validate_digits
      [where password = "''2026'' @ [CHR 0xB2]" and usr = None and T = latin1_tables,
       THEN conjunct1, THEN mp, OF digits]
  note mixed =
    NumericPasswordValidator_validate_digits
      [where password = "''2026x1103''" and usr = None and T = latin1_tables,
       THEN conjunct2, THEN mp, OF disjI2, OF letter]
  from all_digits numeric a_letter mixed show ?thesis
    by blast
qed

text \<open>The empty string: all of its characters are digits, and the validator passes.\<close>

theorem NumericPasswordValidator_empty_counterexample:
  "list_all (isdigit_char latin1_tables) '''' \<and>
   \<not> fails_with (validate latin1_tables NumericPasswordValidator '''' None)
       ''password_entirely_numeric'' \<and>
   validate latin1_tables NumericPasswordValidator '''' None = Inr ()"
  by (simp add: NumericPasswordValidator_validate_def isdigit_def fails_with_def)

subsection \<open>NoRepeatsValidator\<close>

text \<open>
  Claim C5. For every password and every \<open>max_repeats\<close>, \<open>NoRepeatsValidator.validate\<close>
  fails with the code \<open>password_contains_repeats\<close> exactly when some character of the
  password occurs \<open>max_repeats + 1\<close> times in a row somewhere in the password, that is,
  when the string of \<open>max_repeats + 1\<close> copies of the character is a block of the
  password (no copies when \<open>max_repeats + 1\<close> is not positive, as in \<^verbatim>\<open>c * n\<close>); otherwise
  it passes. With \<open>max_repeats = 2\<close> it fails on \<open>aaab\<close> and passes on \<open>aabaa\<close>.
\<close>

theorem NoRepeatsValidator_validate_run:
  "(fails_with (validate T (NoRepeatsValidator (PyInt max_repeats)) password usr)
      ''password_contains_repeats'' =
      (\<exists>c\<in>set password. sublist (replicate (nat (max_repeats + 1)) c) password)) \<and>
   (passes (validate T (NoRepeatsValidator (PyInt max_repeats)) password usr) =
      (\<not> (\<exists>c\<in>set password. sublist (replicate (nat (max_repeats + 1)) c) password))) \<and>
   fails_with (validate T (NoRepeatsValidator (PyInt 2)) ''aaab'' usr)
      ''password_contains_repeats'' \<and>
   passes (validate T (NoRepeatsValidator (PyInt 2)) ''aabaa'' usr)"
proof (intro conjI)
  show "fails_with (validate T (NoRepeatsValidator (PyInt max_repeats)) password usr)
      ''password_contains_repeats'' =
      (\<exists>c\<in>set password. sublist (replicate (nat (max_repeats + 1)) c) password)"
    by (auto simp: NoRepeatsValidator_validate_def fails_with_def Let_def list_ex_iff
          contains_sublist str_mul_def)
  show "passes (validate T (NoRepeatsValidator (PyInt max_repeats)) password usr) =
      (\<not> (\<exists>c\<in>set password. sublist (replicate (nat (max_repeats + 1)) c) password))"
    by (auto simp: NoRepeatsValidator_validate_def passes_def Let_def list_ex_iff
          contains_sublist str_mul_def)
  show "fails_with (validate T (NoRepeatsValidator (PyInt 2)) ''aaab'' usr)
      ''password_contains_repeats''"
    by (simp add: NoRepeatsValidator_validate_def fails_with_def str_mul_def eval_nat_numeral)
  show "passes (validate T (NoRepeatsValidator (PyInt 2)) ''aabaa'' usr)"
    by (simp add: NoRepeatsValidator_validate_def passes_def str_mul_def eval_nat_numeral)
qed

theorem NoRepeatsValidator_validate_run_witness:
  "(\<exists>c\<in>set ''aaab''. sublist (replicate (nat (2 + 1)) c) ''aaab'') \<and>
   \<not> (\<exists>c\<in>set ''aabaa''. sublist (replicate (nat (2 + 1)) c) ''aabaa'')"
proof
  note t = NoRepeatsValidator_validate_run
             [where max_repeats = 2 and password = "''aaab''" and usr = None
                and T = latin1_tables]
  from t [THEN conjunct1] t [THEN conjunct2, THEN conjunct2, THEN conjunct1]
  show "\<exists>c\<in>set ''aaab''. sublist (replicate (nat (2 + 1)) c) ''aaab''"
    by (rule iffD1)
next
  note t = NoRepeatsValidator_validate_run
             [where max_repeats = 2 and password = "''aabaa''" and usr = None
                and T = latin1_tables]
  from t [THEN conjunct2, THEN conjunct1]
       t [THEN conjunct2, THEN conjunct2, THEN conjunct2]
  show "\<not> (\<exists>c\<in>set ''aabaa''. sublist (replicate (nat (2 + 1)) c) ''aabaa'')"
    by (rule iffD1)
qed

subsection \<open>CommonPasswordValidator\<close>

lemma strip_lower_examples:
  "strip latin1_tables (lower latin1_tables ''Password'') = ''password''"
  "strip latin1_tables (lower latin1_tables '' password '') = ''password''"
  "strip latin1_tables (lower latin1_tables ''Xk9!qzT2'') = ''xk9!qzt2''"
  by (simp_all add: strip_def latin1_eval)

lemma construct_example_list:
  "construct example_environment CommonPasswordValidator_class [] =
     Inr (CommonPasswordValidator {''password'', ''123456''})"
  by (simp add: example_environment_def accepts_def argument_def
        CommonPasswordValidator_init_def strip_def latin1_eval)

text \<open>
  Claim C6. Whatever the interpreter takes for whitespace and for the lower case: for
  every loaded set of passwords and every candidate, \<open>CommonPasswordValidator.validate\<close>
  fails with the code \<open>password_too_common\<close> exactly when the candidate in lower case,
  stripped of the whitespace at its two ends, is in the set, and passes otherwise. The
  stripped string is the core of the lower case: what is left between a run of
  whitespace at the start and one at the end, itself empty or with no whitespace at
  its first and last place. Loaded with the list \<open>password\<close>, \<open>123456\<close>, the validator
  fails on \<open>Password\<close> and on \<open> password \<close> and passes on \<open>Xk9!qzT2\<close>.
\<close>

theorem CommonPasswordValidator_validate_member:
  "(fails_with (validate T (CommonPasswordValidator passwords) password usr)
      ''password_too_common'' =
      (\<exists>l core r. lower T password = l @ core @ r \<and>
         list_all (isspace_char T) l \<and> list_all (isspace_char T) r \<and>
         (core = [] \<or> (\<not> isspace_char T (hd core) \<and> \<not> isspace_char T (last core))) \<and>
         core \<in> passwords)) \<and>
   (fails_with (validate T (CommonPasswordValidator passwords) password usr)
      ''password_too_common'' = (strip T (lower T password) \<in> passwords)) \<and>
   (passes (validate T (CommonPasswordValidator passwords) password usr) =
      (strip T (lower T password) \<notin> passwords)) \<and>
   (\<exists>v. construct example_environment CommonPasswordValidator_class [] = Inr v \<and>
        v = CommonPasswordValidator {''password'', ''123456''} \<and>
        fails_with (validate latin1_tables v ''Password'' usr) ''password_too_common'' \<and>
        fails_with (validate latin1_tables v '' password '' usr) ''password_too_common'' \<and>
        passes (validate latin1_tables v ''Xk9!qzT2'' usr))"
proof (intro conjI)
  have member: "(strip T (lower T password) \<in> passwords) =
      (\<exists>l core r. lower T password = l @ core @ r \<and>
         list_all (isspace_char T) l \<and> list_all (isspace_char T) r \<and>
         (core = [] \<or> (\<not> isspace_char T (hd core) \<and> \<not> isspace_char T (last core))) \<and>
         core \<in> passwords)"
  proof
    assume inside: "strip T (lower T password) \<in> passwords"
    have "strip T (lower T password) = strip T (lower T password)" ..
    then obtain l r where
      "lower T password = l @ strip T (lower T password) @ r \<and>
         list_all (isspace_char T) l \<and> list_all (isspace_char T) r \<and>
         (strip T (lower T password) = [] \<or>
          (\<not> isspace_char T (hd (strip T (lower T password))) \<and>
           \<not> isspace_char T (last (strip T (lower T password)))))"
      unfolding strip_core [of T "lower T password" "strip T (lower T password)"] by blast
    with inside show "\<exists>l core r. lower T password = l @ core @ r \<and>
         list_all (isspace_char T) l \<and> list_all (isspace_char T) r \<and>
         (core = [] \<or> (\<not> isspace_char T (hd core) \<and> \<not> isspace_char T (last core))) \<and>
         core \<in> passwords"
      by blast
  next
    assume "\<exists>l core r. lower T password = l @ core @ r \<and>
         list_all (isspace_char T) l \<and> list_all (isspace_char T) r \<and>
         (core = [] \<or> (\<not> isspace_char T (hd core) \<and> \<not> isspace_char T (last core))) \<and>
         core \<in> passwords"
    then obtain l core r where
      parts: "lower T password = l @ core @ r \<and>
         list_all (isspace_char T) l \<and> list_all (isspace_char T) r \<and>
         (core = [] \<or> (\<not> isspace_char T (hd core) \<and> \<not> isspace_char T (last core)))"
      and core: "core \<in> passwords"
      by blast
    from parts have "\<exists>l r. lower T password = l @ core @ r \<and>
         list_all (isspace_char T) l \<and> list_all (isspace_char T) r \<and>
         (core = [] \<or> (\<not> isspace_char T (hd core) \<and> \<not> isspace_char T (last core)))"
      by (intro exI)
    then have "strip T (lower T password) = core"
      by (simp only: strip_core)
    with core show "strip T (lower T password) \<in> passwords"
      by simp
  qed
  show by_strip: "fails_with (validate T (CommonPasswordValidator passwords) password usr)
      ''password_too_common'' = (strip T (lower T password) \<in> passwords)"
    by (simp add: CommonPasswordValidator_validate_def fails_with_def)
  show "fails_with (validate T (CommonPasswordValidator passwords) password usr)
      ''password_too_common'' =
      (\<exists>l core r. lower T password = l @ core @ r \<and>
         list_all (isspace_char T) l \<and> list_all (isspace_char T) r \<and>
         (core = [] \<or> (\<not> isspace_char T (hd core) \<and> \<not> isspace_char T (last core))) \<and>
         core \<in> passwords)"
    unfolding by_strip by (rule member)
  show "passes (validate T (CommonPasswordValidator passwords) password usr) =
      (strip T (lower T password) \<notin> passwords)"
    by (simp add: CommonPasswordValidator_validate_def passes_def)
  show "\<exists>v. construct example_environment CommonPasswordValidator_class [] = Inr v \<and>
        v = CommonPasswordValidator {''password'', ''123456''} \<and>
        fails_with (validate latin1_tables v ''Password'' usr) ''password_too_common'' \<and>
        fails_with (validate latin1_tables v '' password '' usr) ''password_too_common'' \<and>
        passes (validate latin1_tables v ''Xk9!qzT2'' usr)"
    unfolding construct_example_list
    by (simp add: CommonPasswordValidator_validate_def strip_lower_examples
          fails_with_def passes_def)
qed

theorem CommonPasswordValidator_validate_member_witness:
  "strip latin1_tables (lower latin1_tables ([CHR 0xA0] @ ''PassWord'' @ [CHR 0x1F])) \<in>
     {''password'', ''123456''} \<and>
   fails_with
     (validate latin1_tables (CommonPasswordValidator {''password'', ''123456''})
        ([CHR 0xA0] @ ''PassWord'' @ [CHR 0x1F]) None)
     ''password_too_common''"
proof -
  have member:
    "strip latin1_tables (lower latin1_tables ([CHR 0xA0] @ ''PassWord'' @ [CHR 0x1F])) \<in>
       {''password'', ''123456''}"
    by (simp add: strip_def latin1_eval)
  note t = CommonPasswordValidator_validate_member
             [where passwords = "{''password'', ''123456''}"
                and password = "[CHR 0xA0] @ ''PassWord'' @ [CHR 0x1F]"
                and usr = None and T = latin1_tables, THEN conjunct2, THEN conjunct1]
  from t member have
    "fails_with
       (validate latin1_tables (CommonPasswordValidator {''password'', ''123456''})
          ([CHR 0xA0] @ ''PassWord'' @ [CHR 0x1F]) None)
       ''password_too_common''"
    by (rule iffD2)
  with member show ?thesis
    by (intro conjI)
qed

subsection \<open>UserAttributeSimilarityValidator\<close>

lemma compared_values_empty:
  "(compared_values T u names = []) =
     (\<not> (\<exists>name\<in>set names. \<exists>v. attributes u name = Some (AttrStr v) \<and> v \<noteq> []))"
proof (induction names)
  case Nil
  show ?case by (simp add: compared_values_Nil)
next
  case (Cons name names)
  show ?case
  proof (cases "attributes u name")
    case None
    then show ?thesis using Cons by (simp add: compared_values_Cons)
  next
    case (Some attr)
    then show ?thesis using Cons by (cases attr) (simp_all add: compared_values_Cons)
  qed
qed

lemma compare_attributes_no_strings:
  "(\<forall>name\<in>set names. \<forall>v. attributes u name \<noteq> Some (AttrStr v)) \<Longrightarrow>
     compare_attributes T m u password names = Inr ()"
proof (induction names)
  case Nil
  show ?case by simp
next
  case (Cons name names)
  then show ?case
    by (cases "attributes u name") (auto split: attribute.splits)
qed

lemma split_john: "re_split_nonword latin1_tables ''john.doe'' = [''john'', ''doe'']"
  by (simp add: re_split_nonword.simps latin1_eval)

lemma split_word: "re_split_nonword latin1_tables ''john'' = [''john'']"
  by (simp add: re_split_nonword.simps latin1_eval)

lemma lower_words:
  "lower latin1_tables ''john'' = ''john''"
  "lower latin1_tables ''nhoj'' = ''nhoj''"
  "lower latin1_tables ''doe'' = ''doe''"
  "lower latin1_tables ''Doe'' = ''doe''"
  "lower latin1_tables ''john.doe'' = ''john.doe''"
  by (simp_all add: latin1_eval)

text \<open>
  Claim C2, as the code has it, whatever the interpreter takes for the lower case and
  for word characters. Let the configured attributes be fields of the user's model.
  Constructed with \<open>max_similarity = 0\<close>, the validator fails with the code
  \<open>password_too_similar\<close> exactly when some configured attribute of the user holds a
  non-empty string, whatever the password, and passes when none does. Constructed
  with \<open>max_similarity = 1\<close>, it fails exactly when the password in lower case has the
  same characters with the same multiplicities as the lower case of such an attribute
  value or of one of its parts between non-word characters, in any order; an exact
  match without regard to case is the special case of the same order.
\<close>

theorem UserAttributeSimilarityValidator_validate_extremes:
  assumes "\<forall>name\<in>set names. meta_fields u name \<noteq> None"
  shows
    "(fails_with
        (validate T (UserAttributeSimilarityValidator (PyTuple names) (PyInt 0)) password (Some u))
        ''password_too_similar'' =
        (\<exists>name\<in>set names. \<exists>v. attributes u name = Some (AttrStr v) \<and> v \<noteq> [])) \<and>
     (passes
        (validate T (UserAttributeSimilarityValidator (PyTuple names) (PyInt 0)) password (Some u)) =
        (\<not> (\<exists>name\<in>set names. \<exists>v. attributes u name = Some (AttrStr v) \<and> v \<noteq> []))) \<and>
     (fails_with
        (validate T (UserAttributeSimilarityValidator (PyTuple names) (PyInt 1)) password (Some u))
        ''password_too_similar'' =
        (\<exists>part\<in>set (compared_values T u names). mset (lower T password) = mset (lower T part))) \<and>
     (passes
        (validate T (UserAttributeSimilarityValidator (PyTuple names) (PyInt 1)) password (Some u)) =
        (\<not> (\<exists>part\<in>set (compared_values T u names). mset (lower T password) = mset (lower T part)))) \<and>
     (\<forall>part\<in>set (compared_values T u names). lower T password = lower T part \<longrightarrow>
        fails_with
          (validate T (UserAttributeSimilarityValidator (PyTuple names) (PyInt 1)) password (Some u))
          ''password_too_similar'')"
proof -
  have zero: "\<And>part. too_similar (quick_ratio (lower T password) (lower T part)) (PyInt 0) = Inr True"
    by (rule too_similar_0)
  have one: "\<And>part. too_similar (quick_ratio (lower T password) (lower T part)) (PyInt 1) =
               Inr (mset (lower T password) = mset (lower T part))"
    by (rule too_similar_1)
  have some: "(\<exists>part\<in>set (compared_values T u names). True) =
                (\<exists>name\<in>set names. \<exists>v. attributes u name = Some (AttrStr v) \<and> v \<noteq> [])"
  proof -
    have "(\<exists>part\<in>set (compared_values T u names). True) = (compared_values T u names \<noteq> [])"
      by (cases "compared_values T u names") auto
    then show ?thesis
      unfolding compared_values_empty [of T u names] by simp
  qed
  note at_zero =
    compare_attributes_decided
      [where m = "PyInt 0" and P = "\<lambda>part. True" and u = u and names = names, OF zero]
  note at_one =
    compare_attributes_decided
      [where m = "PyInt 1" and P = "\<lambda>part. mset (lower T password) = mset (lower T part)"
         and u = u and names = names, OF one]
  have f0: "fails_with
        (validate T (UserAttributeSimilarityValidator (PyTuple names) (PyInt 0)) password (Some u))
        ''password_too_similar'' =
        (\<exists>name\<in>set names. \<exists>v. attributes u name = Some (AttrStr v) \<and> v \<noteq> [])"
    using at_zero [THEN conjunct2] assms unfolding some
    by (simp add: UserAttributeSimilarityValidator_validate_def)
  have p0: "passes
        (validate T (UserAttributeSimilarityValidator (PyTuple names) (PyInt 0)) password (Some u)) =
        (\<not> (\<exists>name\<in>set names. \<exists>v. attributes u name = Some (AttrStr v) \<and> v \<noteq> []))"
    using at_zero [THEN conjunct1] unfolding some
    by (simp add: UserAttributeSimilarityValidator_validate_def passes_def)
  have f1: "fails_with
        (validate T (UserAttributeSimilarityValidator (PyTuple names) (PyInt 1)) password (Some u))
        ''password_too_similar'' =
        (\<exists>part\<in>set (compared_values T u names). mset (lower T password) = mset (lower T part))"
    using at_one [THEN conjunct2] assms
    by (simp add: UserAttributeSimilarityValidator_validate_def)
  have p1: "passes
        (validate T (UserAttributeSimilarityValidator (PyTuple names) (PyInt 1)) password (Some u)) =
        (\<not> (\<exists>part\<in>set (compared_values T u names). mset (lower T password) = mset (lower T part)))"
    using at_one [THEN conjunct1]
    by (simp add: UserAttributeSimilarityValidator_validate_def passes_def)
  have exact: "\<forall>part\<in>set (compared_values T u names). lower T password = lower T part \<longrightarrow>
        fails_with
          (validate T (UserAttributeSimilarityValidator (PyTuple names) (PyInt 1)) password (Some u))
          ''password_too_similar''"
    unfolding f1 by auto
  from f0 p0 f1 p1 exact show ?thesis
    by (intro conjI)
qed

theorem UserAttributeSimilarityValidator_validate_extremes_witness:
  "list_all (\<lambda>name. meta_fields (user_named ''john.doe'') name \<noteq> None) [''username''] \<and>
   fails_with
     (validate latin1_tables (UserAttributeSimilarityValidator (PyTuple [''username'']) (PyInt 0)) ''zzz''
        (Some (user_named ''john.doe'')))
     ''password_too_similar'' \<and>
   fails_with
     (validate latin1_tables (UserAttributeSimilarityValidator (PyTuple [''username'']) (PyInt 1)) ''Doe''
        (Some (user_named ''john.doe'')))
     ''password_too_similar'' \<and>
   passes
     (validate latin1_tables (UserAttributeSimilarityValidator (PyTuple [''username'']) (PyInt 1)) ''doe12''
        (Some (user_named ''john.doe'')))"
proof -
  have fields: "list_all (\<lambda>name. meta_fields (user_named ''john.doe'') name \<noteq> None) [''username'']"
    by (simp add: user_named_def)
  then have hyp: "\<forall>name\<in>set [''username'']. meta_fields (user_named ''john.doe'') name \<noteq> None"
    unfolding list_all_iff .
  have vals: "compared_values latin1_tables (user_named ''john.doe'') [''username''] =
                  [''john'', ''doe'', ''john.doe'']"
    by (simp add: compared_values_def user_named_def split_john)
  have holds: "\<exists>name\<in>set [''username''].
                 \<exists>v. attributes (user_named ''john.doe'') name = Some (AttrStr v) \<and> v \<noteq> []"
    by (simp add: user_named_def)
  have same: "\<exists>part\<in>set (compared_values latin1_tables (user_named ''john.doe'') [''username'']).
                mset (lower latin1_tables ''Doe'') = mset (lower latin1_tables part)"
    unfolding vals
    by (simp add: latin1_eval)
  have other: "\<not> (\<exists>part\<in>set (compared_values latin1_tables (user_named ''john.doe'') [''username'']).
                mset (lower latin1_tables ''doe12'') = mset (lower latin1_tables part))"
  proof -
    have "\<forall>part\<in>set (compared_values latin1_tables (user_named ''john.doe'') [''username'']).
            length (lower latin1_tables ''doe12'') \<noteq> length (lower latin1_tables part)"
      unfolding vals by (simp add: latin1_eval)
    then show ?thesis
      using mset_eq_length by blast
  qed
  note z = UserAttributeSimilarityValidator_validate_extremes
             [where T = latin1_tables and names = "[''username'']" and u = "user_named ''john.doe''"
                and password = "''zzz''", OF hyp]
  note d = UserAttributeSimilarityValidator_validate_extremes
             [where T = latin1_tables and names = "[''username'']" and u = "user_named ''john.doe''"
                and password = "''Doe''", OF hyp]
  note w = UserAttributeSimilarityValidator_validate_extremes
             [where T = latin1_tables and names = "[''username'']" and u = "user_named ''john.doe''"
                and password = "''doe12''", OF hyp]
  from z [THEN conjunct1] holds have a: "fails_with
     (validate latin1_tables (UserAttributeSimilarityValidator (PyTuple [''username'']) (PyInt 0)) ''zzz''
        (Some (user_named ''john.doe'')))
     ''password_too_similar''"
    by (rule iffD2)
  from d [THEN conjunct2, THEN conjunct2, THEN conjunct1] same have b: "fails_with
     (validate latin1_tables (UserAttributeSimilarityValidator (PyTuple [''username'']) (PyInt 1)) ''Doe''
        (Some (user_named ''john.doe'')))
     ''password_too_similar''"
    by (rule iffD2)
  from w [THEN conjunct2, THEN conjunct2, THEN conjunct2, THEN conjunct1] other have c: "passes
     (validate latin1_tables (UserAttributeSimilarityValidator (PyTuple [''username'']) (PyInt 1)) ''doe12''
        (Some (user_named ''john.doe'')))"
    by (rule iffD2)
  from fields a b c show ?thesis
    by (intro conjI)
qed

text \<open>
  Where the claim as it is written fails: a user whose \<open>username\<close> is the empty string
  passes with \<open>max_similarity = 0\<close>; and with \<open>max_similarity = 1\<close> the password \<open>nhoj\<close>
  fails for the user \<open>john\<close>, of whose name and parts it is no match.
\<close>

theorem UserAttributeSimilarityValidator_counterexample:
  "attributes (user_named '''') ''username'' = Some (AttrStr '''') \<and>
   validate latin1_tables (UserAttributeSimilarityValidator (PyTuple [''username'']) (PyInt 0)) ''secret''
     (Some (user_named '''')) = Inr () \<and>
   fails_with
     (validate latin1_tables (UserAttributeSimilarityValidator (PyTuple [''username'']) (PyInt 1)) ''nhoj''
        (Some (user_named ''john'')))
     ''password_too_similar'' \<and>
   lower latin1_tables ''nhoj'' \<notin> set (map (lower latin1_tables) (re_split_nonword latin1_tables ''john'' @ [''john'']))"
proof (intro conjI)
  show "attributes (user_named '''') ''username'' = Some (AttrStr '''')"
    by (simp add: user_named_def)
  show "validate latin1_tables (UserAttributeSimilarityValidator (PyTuple [''username'']) (PyInt 0)) ''secret''
     (Some (user_named '''')) = Inr ()"
    by (simp add: UserAttributeSimilarityValidator_validate_def user_named_def)
  show "fails_with
     (validate latin1_tables (UserAttributeSimilarityValidator (PyTuple [''username'']) (PyInt 1)) ''nhoj''
        (Some (user_named ''john'')))
     ''password_too_similar''"
    by (simp add: UserAttributeSimilarityValidator_validate_def fails_with_def user_named_def
          split_word lower_words too_similar_def quick_ratio_def calculate_ratio_def)
  show "lower latin1_tables ''nhoj'' \<notin> set (map (lower latin1_tables) (re_split_nonword latin1_tables ''john'' @ [''john'']))"
    by (simp add: split_word lower_words)
qed

text \<open>With the tables of Latin-1 a capital outside ASCII matches its small letter.\<close>

lemma latin1_capital_is_similar:
  "fails_with
     (validate latin1_tables (UserAttributeSimilarityValidator (PyTuple [''username'']) (PyInt 1))
        [CHR 0xC9] (Some (user_named [CHR 0xE9])))
     ''password_too_similar''"
proof -
  have "re_split_nonword latin1_tables [CHR 0xE9] = [[CHR 0xE9]]"
    by (simp add: re_split_nonword.simps latin1_eval)
  moreover have "lower latin1_tables [CHR 0xC9] = [CHR 0xE9]"
    and "lower latin1_tables [CHR 0xE9] = [CHR 0xE9]"
    by (simp_all add: latin1_eval)
  ultimately show ?thesis
    by (simp add: UserAttributeSimilarityValidator_validate_def fails_with_def user_named_def
          too_similar_def quick_ratio_def calculate_ratio_def)
qed

text \<open>
  Claim C10. The default of \<open>user_attributes\<close> is the string \<open>username\<close>, not a tuple:
  a validator constructed without options iterates over the one-letter names
  \<open>u, s, e, r, n, a, m, e\<close>. For every user that has no string attribute under one of
  these names, the validator passes every password, the user's own username included.
\<close>

theorem UserAttributeSimilarityValidator_default_attributes:
  "construct env UserAttributeSimilarityValidator_class [] =
     Inr (UserAttributeSimilarityValidator (PyStr ''username'') (PyFloat (1 / 2))) \<and>
   iterate (PyStr ''username'') =
     Inr [''u'', ''s'', ''e'', ''r'', ''n'', ''a'', ''m'', ''e''] \<and>
   ((\<forall>c\<in>set ''username''. \<forall>v. attributes u [c] \<noteq> Some (AttrStr v)) \<longrightarrow>
      passes (validate T (UserAttributeSimilarityValidator (PyStr ''username'') (PyFloat (1 / 2)))
                password (Some u)))"
proof (intro conjI impI)
  show "construct env UserAttributeSimilarityValidator_class [] =
     Inr (UserAttributeSimilarityValidator (PyStr ''username'') (PyFloat (1 / 2)))"
    by (simp add: accepts_def argument_def DEFAULT_USER_ATTRIBUTES_def)
  show "iterate (PyStr ''username'') =
     Inr [''u'', ''s'', ''e'', ''r'', ''n'', ''a'', ''m'', ''e'']"
    by simp
  assume "\<forall>c\<in>set ''username''. \<forall>v. attributes u [c] \<noteq> Some (AttrStr v)"
  then have "\<forall>name\<in>set (map (\<lambda>c. [c]) ''username''). \<forall>v. attributes u name \<noteq> Some (AttrStr v)"
    by simp
  then have "compare_attributes T (PyFloat (1 / 2)) u password (map (\<lambda>c. [c]) ''username'') = Inr ()"
    by (rule compare_attributes_no_strings)
  then show "passes (validate T (UserAttributeSimilarityValidator (PyStr ''username'') (PyFloat (1 / 2)))
                password (Some u))"
    by (simp add: UserAttributeSimilarityValidator_validate_def passes_def)
qed

theorem UserAttributeSimilarityValidator_default_attributes_witness:
  "list_all (\<lambda>c. \<forall>v. attributes (user_named ''john'') [c] \<noteq> Some (AttrStr v)) ''username'' \<and>
   passes (validate latin1_tables (UserAttributeSimilarityValidator (PyStr ''username'') (PyFloat (1 / 2)))
             ''john'' (Some (user_named ''john''))) \<and>
   fails_with (validate latin1_tables (UserAttributeSimilarityValidator (PyTuple [''username'']) (PyFloat (1 / 2)))
             ''john'' (Some (user_named ''john''))) ''password_too_similar''"
proof -
  have none: "list_all (\<lambda>c. \<forall>v. attributes (user_named ''john'') [c] \<noteq> Some (AttrStr v))
                ''username''"
    by (simp add: user_named_def)
  then have hyp: "\<forall>c\<in>set ''username''. \<forall>v. attributes (user_named ''john'') [c] \<noteq> Some (AttrStr v)"
    unfolding list_all_iff .
  note default =
    UserAttributeSimilarityValidator_default_attributes
      [where T = latin1_tables and u = "user_named ''john''" and password = "''john''",
       THEN conjunct2, THEN conjunct2, THEN mp, OF hyp]
  have tuple: "fails_with
      (validate latin1_tables (UserAttributeSimilarityValidator (PyTuple [''username'']) (PyFloat (1 / 2)))
         ''john'' (Some (user_named ''john''))) ''password_too_similar''"
    by (simp add: UserAttributeSimilarityValidator_validate_def fails_with_def user_named_def
          split_word lower_words too_similar_def quick_ratio_def calculate_ratio_def)
  from none default tuple show ?thesis
    by (intro conjI)
qed

subsection \<open>validate_password\<close>

lemma validate_password_loop_conforming:
  "\<forall>v\<in>set vs. conforms (validate_method v password usr) \<Longrightarrow>
     validate_password_loop validate_method password usr vs called errors =
       (called @ vs, Inr (errors @ raised_errors validate_method password usr vs))"
proof (induction vs arbitrary: called errors)
  case Nil
  show ?case by (simp add: raised_errors_def)
next
  case (Cons v vs)
  from Cons.prems have rest: "\<forall>v\<in>set vs. conforms (validate_method v password usr)"
    by simp
  from Cons.prems have head: "conforms (validate_method v password usr)"
    by simp
  show ?case
  proof (cases "validate_method v password usr")
    case (Inr r)
    then show ?thesis
      using Cons.IH [OF rest] by (simp add: raised_errors_def)
  next
    case (Inl e)
    with head obtain error where "e = Raised error"
      by (cases e) simp_all
    with Inl show ?thesis
      using Cons.IH [OF rest] by (simp add: raised_errors_def)
  qed
qed

text \<open>
  Claim C1. For every password, user and list of validators each of which returns or
  raises a ValidationError, \<open>validate_password\<close> calls \<open>validate\<close> of every validator, in
  order and also after a failure, collects the ValidationErrors raised in the order of
  the validators, and raises one ValidationError made of exactly these errors when
  there is one, and returns \<open>None\<close> when there is none. With the validators \<open>A\<close>
  (fails), \<open>B\<close> (passes), \<open>C\<close> (fails) all three are called and the error raised holds
  the error of \<open>A\<close>, then that of \<open>C\<close>.
\<close>

theorem validate_password_collects:
  "((\<forall>v\<in>set vs. conforms (validate_method v password usr)) \<longrightarrow>
      validate_password validate_method default_validators password usr (Some vs) =
        (vs,
         if raised_errors validate_method password usr vs = [] then Inr ()
         else Inl (Raised (ValidationErrors (raised_errors validate_method password usr vs))))) \<and>
   (validate_method A password usr = Inl (Raised error_A) \<and>
    validate_method B password usr = Inr () \<and>
    validate_method C password usr = Inl (Raised error_C) \<longrightarrow>
      validate_password validate_method default_validators password usr (Some [A, B, C]) =
        ([A, B, C], Inl (Raised (ValidationErrors [error_A, error_C]))))"
proof (intro conjI impI)
  assume "\<forall>v\<in>set vs. conforms (validate_method v password usr)"
  then show "validate_password validate_method default_validators password usr (Some vs) =
        (vs,
         if raised_errors validate_method password usr vs = [] then Inr ()
         else Inl (Raised (ValidationErrors (raised_errors validate_method password usr vs))))"
    by (simp add: validate_password_def validate_password_loop_conforming)
next
  assume abc: "validate_method A password usr = Inl (Raised error_A) \<and>
    validate_method B password usr = Inr () \<and>
    validate_method C password usr = Inl (Raised error_C)"
  then show "validate_password validate_method default_validators password usr (Some [A, B, C]) =
        ([A, B, C], Inl (Raised (ValidationErrors [error_A, error_C])))"
    by (simp add: validate_password_def)
qed

theorem validate_password_collects_witness:
  "list_all (\<lambda>v. conforms (validate latin1_tables v ''12345'' None)) [MinimumLengthValidator (PyInt 3)] \<and>
   validate_password (validate latin1_tables) (Inr []) ''12345'' None (Some [MinimumLengthValidator (PyInt 3)]) =
     ([MinimumLengthValidator (PyInt 3)], Inr ()) \<and>
   validate_password (validate latin1_tables) (Inr []) ''12345'' None
     (Some [NumericPasswordValidator, MinimumLengthValidator (PyInt 3),
            AtLeastOneUppercaseCharacterValidator]) =
     ([NumericPasswordValidator, MinimumLengthValidator (PyInt 3),
       AtLeastOneUppercaseCharacterValidator],
      Inl (Raised (ValidationErrors
        [ValidationError (Text ''This password is entirely numeric.'')
           ''password_entirely_numeric'' [],
         ValidationError (Text ''This password does not contain an uppercase character.'')
           ''password_without_uppercase'' []])))"
proof -
  have ok: "list_all (\<lambda>v. conforms (validate latin1_tables v ''12345'' None)) [MinimumLengthValidator (PyInt 3)]"
    by (simp add: MinimumLengthValidator_validate_def)
  then have hyp: "\<forall>v\<in>set [MinimumLengthValidator (PyInt 3)]. conforms (validate latin1_tables v ''12345'' None)"
    unfolding list_all_iff .
  have none: "raised_errors (validate latin1_tables) ''12345'' None [MinimumLengthValidator (PyInt 3)] = []"
    by (simp add: raised_errors_def MinimumLengthValidator_validate_def)
  have one: "validate_password (validate latin1_tables) (Inr []) ''12345'' None
               (Some [MinimumLengthValidator (PyInt 3)]) =
             ([MinimumLengthValidator (PyInt 3)], Inr ())"
    using validate_password_collects
            [where validate_method = "validate latin1_tables" and password = "''12345''" and usr = None
               and vs = "[MinimumLengthValidator (PyInt 3)]" and default_validators = "Inr []",
             THEN conjunct1, THEN mp, OF hyp]
    unfolding none by simp
  have abc: "validate latin1_tables NumericPasswordValidator ''12345'' None =
               Inl (Raised (ValidationError (Text ''This password is entirely numeric.'')
                      ''password_entirely_numeric'' [])) \<and>
             validate latin1_tables (MinimumLengthValidator (PyInt 3)) ''12345'' None = Inr () \<and>
             validate latin1_tables AtLeastOneUppercaseCharacterValidator ''12345'' None =
               Inl (Raised (ValidationError
                      (Text ''This password does not contain an uppercase character.'')
                      ''password_without_uppercase'' []))"
    by (simp add: NumericPasswordValidator_validate_def isdigit_def
          MinimumLengthValidator_validate_def
          AtLeastOneUppercaseCharacterValidator_validate_def latin1_eval)
  note three =
    validate_password_collects
      [where validate_method = "validate latin1_tables" and password = "''12345''" and usr = None
         and default_validators = "Inr []",
       THEN conjunct2, THEN mp, OF abc]
  from ok one three show ?thesis
    by (intro conjI)
qed

subsection \<open>The help texts\<close>

lemma help_texts_loop_all:
  "list_all2 (\<lambda>v t. help_method v = Inr t) vs ts \<Longrightarrow>
     help_texts_loop help_method vs help_texts = Inr (help_texts @ ts)"
proof (induction vs arbitrary: ts help_texts)
  case Nil
  then show ?case by simp
next
  case (Cons v vs)
  from Cons.prems obtain t ts' where
    ts: "ts = t # ts'" and head: "help_method v = Inr t"
    and rest: "list_all2 (\<lambda>v t. help_method v = Inr t) vs ts'"
    by (auto simp: list_all2_Cons1)
  show ?case
    using Cons.IH [OF rest] head ts by simp
qed

lemma escape_neutral:
  "list_all (\<lambda>c. c \<notin> set (''<>'' @ [CHR 0x22, CHR 0x27])) (escape help_text)"
  by (induction help_text) (auto simp: escape_def escape_char_def)

text \<open>
  Claim C8. For every list of validators whose help texts are \<open>ts\<close>, in the order of the
  validators, \<open>password_validators_help_texts\<close> returns \<open>ts\<close>, and
  \<open>password_validators_help_text_html\<close> returns the empty string when \<open>ts\<close> is empty and
  otherwise the list \<open><ul>\<close> with one item \<open><li>\<close> for each help text, escaped, in that
  order; an escaped text holds none of the characters \<open><\<close>, \<open>>\<close> and the two quotes.
  For the empty list of validators the first returns the empty list and the second
  the empty string.
\<close>

theorem password_validators_help_text_html_items:
  "(list_all2 (\<lambda>v t. help_method v = Inr t) vs ts \<longrightarrow>
      password_validators_help_texts help_method default_validators (Some vs) = Inr ts \<and>
      password_validators_help_text_html help_method default_validators (Some vs) =
        Inr (if ts = [] then ''''
             else ''<ul>'' @ concat (map (\<lambda>t. ''<li>'' @ escape t @ ''</li>'') ts) @ ''</ul>'')) \<and>
   list_all (\<lambda>c. c \<notin> set (''<>'' @ [CHR 0x22, CHR 0x27])) (escape help_text) \<and>
   password_validators_help_texts help_method default_validators (Some []) = Inr [] \<and>
   password_validators_help_text_html help_method default_validators (Some []) = Inr ''''"
proof (intro conjI impI)
  assume all: "list_all2 (\<lambda>v t. help_method v = Inr t) vs ts"
  show texts: "password_validators_help_texts help_method default_validators (Some vs) = Inr ts"
    using help_texts_loop_all [OF all, of "[]"]
    by (simp add: password_validators_help_texts_def)
  show "password_validators_help_text_html help_method default_validators (Some vs) =
        Inr (if ts = [] then ''''
             else ''<ul>'' @ concat (map (\<lambda>t. ''<li>'' @ escape t @ ''</li>'') ts) @ ''</ul>'')"
    by (simp add: password_validators_help_text_html_def texts format_html_join_li_def)
next
  show "list_all (\<lambda>c. c \<notin> set (''<>'' @ [CHR 0x22, CHR 0x27])) (escape help_text)"
    by (rule escape_neutral)
  show "password_validators_help_texts help_method default_validators (Some []) = Inr []"
    by (simp add: password_validators_help_texts_def)
  show "password_validators_help_text_html help_method default_validators (Some []) = Inr ''''"
    by (simp add: password_validators_help_text_html_def password_validators_help_texts_def)
qed

theorem password_validators_help_text_html_items_witness:
  "list_all2 (\<lambda>v t. get_help_text v = Inr t)
     [MinimumLengthValidator (PyInt 10), NumericPasswordValidator]
     [''Your password must contain at least 10 characters.'',
      ''Your password can'' @ [CHR 0x27] @ ''t be entirely numeric.''] \<and>
   password_validators_help_text_html get_help_text (Inr [])
     (Some [MinimumLengthValidator (PyInt 10), NumericPasswordValidator]) =
     Inr (''<ul><li>Your password must contain at least 10 characters.</li>'' @
          ''<li>Your password can&#39;t be entirely numeric.</li></ul>'')"
proof -
  have texts: "list_all2 (\<lambda>v t. get_help_text v = Inr t)
     [MinimumLengthValidator (PyInt 10), NumericPasswordValidator]
     [''Your password must contain at least 10 characters.'',
      ''Your password can'' @ [CHR 0x27] @ ''t be entirely numeric.'']"
    by (simp add: str_int_def digits.simps ascii_digits_def)
  note html =
    password_validators_help_text_html_items
      [where help_method = get_help_text and default_validators = "Inr []",
       THEN conjunct1, THEN mp, OF texts, THEN conjunct2]
  have "password_validators_help_text_html get_help_text (Inr [])
     (Some [MinimumLengthValidator (PyInt 10), NumericPasswordValidator]) =
     Inr (''<ul><li>Your password must contain at least 10 characters.</li>'' @
          ''<li>Your password can&#39;t be entirely numeric.</li></ul>'')"
    unfolding html by (simp add: escape_def escape_char_def)
  with texts show ?thesis
    by (intro conjI)
qed

subsection \<open>get_password_validators\<close>

lemma get_password_validators_loop_result:
  "\<forall>c\<in>set (takeWhile (resolves env) validator_config). \<exists>v. constructed env c v \<Longrightarrow>
     (case find (\<lambda>c. \<not> resolves env c) validator_config of
        Some c \<Rightarrow>
          get_password_validators_loop env validator_config validators =
            Inl (ImproperlyConfigured (import_error_message (NAME c)))
      | None \<Rightarrow>
          (\<exists>vs. get_password_validators_loop env validator_config validators =
                  Inr (validators @ vs) \<and>
                list_all2 (constructed env) validator_config vs))"
proof (induction validator_config arbitrary: validators)
  case Nil
  show ?case by simp
next
  case (Cons c cs)
  show ?case
  proof (cases "import_string env (NAME c)")
    case None
    then show ?thesis by (simp add: resolves_def)
  next
    case (Some klass)
    then have res: "resolves env c"
      by (simp add: resolves_def)
    with Cons.prems obtain v where "constructed env c v"
      by auto
    with Some have v: "construct env klass (options c) = Inr v"
      by (simp add: constructed_def)
    from Cons.prems res have
      "\<forall>c\<in>set (takeWhile (resolves env) cs). \<exists>v. constructed env c v"
      by simp
    note IH = Cons.IH [OF this, of "validators @ [v]"]
    show ?thesis
    proof (cases "find (\<lambda>c. \<not> resolves env c) cs")
      case None
      with IH obtain vs where
        "get_password_validators_loop env cs (validators @ [v]) = Inr ((validators @ [v]) @ vs)"
        and "list_all2 (constructed env) cs vs"
        by auto
      then have
        "get_password_validators_loop env (c # cs) validators = Inr (validators @ (v # vs)) \<and>
         list_all2 (constructed env) (c # cs) (v # vs)"
        using Some v by (simp add: constructed_def)
      then show ?thesis
        using None res by auto
    next
      case (Some bad)
      with IH show ?thesis
        using \<open>import_string env (NAME c) = Some klass\<close> v res by simp
    qed
  qed
qed



lemma example_imports:
  "import_string example_environment (module_path @ ''MinimumLengthValidator'') =
     Some MinimumLengthValidator_class"
  "import_string example_environment (module_path @ ''NoRepeatsValidator'') =
     Some NoRepeatsValidator_class"
  "import_string example_environment (module_path @ ''CommonPasswordValidator'') =
     Some CommonPasswordValidator_class"
  "import_string example_environment ''no.such.Validator'' = None"
  by (simp_all add: example_environment_def module_classes_def module_path_def)

lemma get_password_validators_loop_prefix:
  "list_all2 (constructed env) pre ws \<Longrightarrow>
     get_password_validators_loop env (pre @ rest) validators =
       get_password_validators_loop env rest (validators @ ws)"
proof (induction pre arbitrary: ws validators)
  case Nil
  then show ?case by simp
next
  case (Cons c pre)
  from Cons.prems obtain w ws' where
    ws: "ws = w # ws'" and head: "constructed env c w"
    and rest: "list_all2 (constructed env) pre ws'"
    by (auto simp: list_all2_Cons1)
  from head obtain klass where
    "import_string env (NAME c) = Some klass" and "construct env klass (options c) = Inr w"
    by (auto simp: constructed_def split: option.splits)
  then show ?case
    using Cons.IH [OF rest, of "validators @ [w]"] ws by simp
qed

lemma construct_unknown_keyword:
  "\<exists>k\<in>set (map fst kwargs). k \<notin> set (parameters klass) \<Longrightarrow>
     construct env klass kwargs = Inl TypeError"
  by (cases klass) (auto simp: accepts_def list_all_iff)

text \<open>
  Claim C3, as the code has it. For every list of configuration entries in which the
  constructors of the entries before the first unresolved name accept the options of
  their entries: when some name is not resolved, \<open>get_password_validators\<close> fails with
  ImproperlyConfigured and a message that holds the first such name; otherwise it
  returns the validators in the order of the entries, each the class of its entry's
  name constructed with the entry's options as keyword arguments. An exception of a
  constructor is not caught: when the entries before an entry construct and the
  constructor of that entry raises, \<open>get_password_validators\<close> raises the same
  exception, whatever follows the entry. Such exceptions are the TypeError of a
  keyword that is no parameter of the constructor and the IOError of a password list
  that cannot be read.
\<close>

theorem get_password_validators_resolution:
  "((\<forall>c\<in>set (takeWhile (resolves env) validator_config). \<exists>v. constructed env c v) \<longrightarrow>
      (case find (\<lambda>c. \<not> resolves env c) validator_config of
         Some c \<Rightarrow>
           get_password_validators env validator_config =
             Inl (ImproperlyConfigured
                    (''The module in NAME could not be imported: '' @ NAME c @
                     ''. Check your AUTH_PASSWORD_VALIDATORS setting.''))
       | None \<Rightarrow>
           (\<exists>vs. get_password_validators env validator_config = Inr vs \<and>
                 list_all2 (constructed env) validator_config vs))) \<and>
   (list_all2 (constructed env) before vs \<and>
    import_string env (NAME entry) = Some klass \<and>
    construct env klass (options entry) = Inl e \<longrightarrow>
      get_password_validators env (before @ entry # after) = Inl e) \<and>
   ((\<exists>k\<in>set (map fst kwargs). k \<notin> set (parameters klass)) \<longrightarrow>
      construct env klass kwargs = Inl TypeError) \<and>
   (files env path = None \<longrightarrow>
      construct env CommonPasswordValidator_class [(''password_list_path'', PyStr path)] =
        Inl IOError) \<and>
   (files env (DEFAULT_PASSWORD_LIST_PATH env) = None \<longrightarrow>
      construct env CommonPasswordValidator_class [] = Inl IOError)"
proof (intro conjI impI)
  assume "\<forall>c\<in>set (takeWhile (resolves env) validator_config). \<exists>v. constructed env c v"
  from get_password_validators_loop_result [OF this, of "[]"]
  show "case find (\<lambda>c. \<not> resolves env c) validator_config of
         Some c \<Rightarrow>
           get_password_validators env validator_config =
             Inl (ImproperlyConfigured
                    (''The module in NAME could not be imported: '' @ NAME c @
                     ''. Check your AUTH_PASSWORD_VALIDATORS setting.''))
       | None \<Rightarrow>
           (\<exists>vs. get_password_validators env validator_config = Inr vs \<and>
                 list_all2 (constructed env) validator_config vs)"
    by (simp add: get_password_validators_def import_error_message_def split: option.splits)
next
  assume raises: "list_all2 (constructed env) before vs \<and>
    import_string env (NAME entry) = Some klass \<and>
    construct env klass (options entry) = Inl e"
  then have "get_password_validators_loop env (before @ entry # after) [] =
               get_password_validators_loop env (entry # after) ([] @ vs)"
    by (intro get_password_validators_loop_prefix) simp
  with raises show "get_password_validators env (before @ entry # after) = Inl e"
    by (simp add: get_password_validators_def)
next
  assume "\<exists>k\<in>set (map fst kwargs). k \<notin> set (parameters klass)"
  then show "construct env klass kwargs = Inl TypeError"
    by (rule construct_unknown_keyword)
next
  assume "files env path = None"
  then show "construct env CommonPasswordValidator_class [(''password_list_path'', PyStr path)] =
        Inl IOError"
    by (simp add: accepts_def argument_def CommonPasswordValidator_init_def)
next
  assume "files env (DEFAULT_PASSWORD_LIST_PATH env) = None"
  then show "construct env CommonPasswordValidator_class [] = Inl IOError"
    by (simp add: accepts_def argument_def CommonPasswordValidator_init_def)
qed

theorem get_password_validators_resolution_witness:
  "list_all (\<lambda>c. constructed example_environment c (MinimumLengthValidator (PyInt 10)))
     (takeWhile (resolves example_environment)
        [\<lparr>NAME = module_path @ ''MinimumLengthValidator'',
          OPTIONS = Some [(''min_length'', PyInt 10)]\<rparr>,
         \<lparr>NAME = ''no.such.Validator'', OPTIONS = None\<rparr>]) \<and>
   get_password_validators example_environment
     [\<lparr>NAME = module_path @ ''MinimumLengthValidator'',
       OPTIONS = Some [(''min_length'', PyInt 10)]\<rparr>,
      \<lparr>NAME = ''no.such.Validator'', OPTIONS = None\<rparr>] =
     Inl (ImproperlyConfigured
            (''The module in NAME could not be imported: no.such.Validator'' @
             ''. Check your AUTH_PASSWORD_VALIDATORS setting.'')) \<and>
   (\<exists>vs. get_password_validators example_environment
           [\<lparr>NAME = module_path @ ''MinimumLengthValidator'',
             OPTIONS = Some [(''min_length'', PyInt 10)]\<rparr>] = Inr vs \<and>
         list_all2 (constructed example_environment)
           [\<lparr>NAME = module_path @ ''MinimumLengthValidator'',
             OPTIONS = Some [(''min_length'', PyInt 10)]\<rparr>] vs) \<and>
   files example_environment ''no-such-list.txt'' = None \<and>
   get_password_validators example_environment
     [\<lparr>NAME = module_path @ ''MinimumLengthValidator'',
       OPTIONS = Some [(''min_length'', PyInt 10)]\<rparr>,
      \<lparr>NAME = module_path @ ''CommonPasswordValidator'',
       OPTIONS = Some [(''password_list_path'', PyStr ''no-such-list.txt'')]\<rparr>,
      \<lparr>NAME = ''no.such.Validator'', OPTIONS = None\<rparr>] = Inl IOError \<and>
   get_password_validators example_environment
     [\<lparr>NAME = module_path @ ''MinimumLengthValidator'',
       OPTIONS = Some [(''min_length'', PyInt 10)]\<rparr>,
      \<lparr>NAME = module_path @ ''NoRepeatsValidator'',
       OPTIONS = Some [(''min_length'', PyInt 10)]\<rparr>] = Inl TypeError"
proof -
  let ?good = "\<lparr>NAME = module_path @ ''MinimumLengthValidator'',
                 OPTIONS = Some [(''min_length'', PyInt 10)]\<rparr>"
  let ?bad = "\<lparr>NAME = ''no.such.Validator'', OPTIONS = None\<rparr>"
  let ?unread = "\<lparr>NAME = module_path @ ''CommonPasswordValidator'',
                   OPTIONS = Some [(''password_list_path'', PyStr ''no-such-list.txt'')]\<rparr>"
  let ?keyword = "\<lparr>NAME = module_path @ ''NoRepeatsValidator'',
                    OPTIONS = Some [(''min_length'', PyInt 10)]\<rparr>"
  have good: "resolves example_environment ?good"
    and built: "constructed example_environment ?good (MinimumLengthValidator (PyInt 10))"
    and bad: "\<not> resolves example_environment ?bad"
    by (simp_all add: resolves_def constructed_def example_imports options_def accepts_def
          argument_def)
  have prefix: "takeWhile (resolves example_environment) [?good, ?bad] = [?good]"
    and all: "takeWhile (resolves example_environment) [?good] = [?good]"
    using good bad by simp_all
  have first: "find (\<lambda>c. \<not> resolves example_environment c) [?good, ?bad] = Some ?bad"
    and none: "find (\<lambda>c. \<not> resolves example_environment c) [?good] = None"
    using good bad by simp_all
  have hyp1: "\<forall>c\<in>set (takeWhile (resolves example_environment) [?good, ?bad]).
                \<exists>v. constructed example_environment c v"
    unfolding prefix using built by auto
  have hyp2: "\<forall>c\<in>set (takeWhile (resolves example_environment) [?good]).
                \<exists>v. constructed example_environment c v"
    unfolding all using built by auto
  have a: "list_all (\<lambda>c. constructed example_environment c (MinimumLengthValidator (PyInt 10)))
             (takeWhile (resolves example_environment) [?good, ?bad])"
    unfolding prefix using built by simp
  have b: "get_password_validators example_environment [?good, ?bad] =
             Inl (ImproperlyConfigured
                    (''The module in NAME could not be imported: no.such.Validator'' @
                     ''. Check your AUTH_PASSWORD_VALIDATORS setting.''))"
    using get_password_validators_resolution
            [where env = example_environment and validator_config = "[?good, ?bad]",
             THEN conjunct1, THEN mp, OF hyp1]
    unfolding first by simp
  have c: "\<exists>vs. get_password_validators example_environment [?good] = Inr vs \<and>
                list_all2 (constructed example_environment) [?good] vs"
    using get_password_validators_resolution
            [where env = example_environment and validator_config = "[?good]",
             THEN conjunct1, THEN mp, OF hyp2]
    unfolding none by simp
  have before: "list_all2 (constructed example_environment) [?good]
                  [MinimumLengthValidator (PyInt 10)]"
    using built by simp
  have missing: "files example_environment ''no-such-list.txt'' = None"
    by (simp add: example_environment_def)
  note io = get_password_validators_resolution
              [where env = example_environment and path = "''no-such-list.txt''",
               THEN conjunct2, THEN conjunct2, THEN conjunct2, THEN conjunct1, THEN mp,
               OF missing]
  have unread: "list_all2 (constructed example_environment) [?good]
                  [MinimumLengthValidator (PyInt 10)] \<and>
                import_string example_environment (NAME ?unread) =
                  Some CommonPasswordValidator_class \<and>
                construct example_environment CommonPasswordValidator_class (options ?unread) =
                  Inl IOError"
    using before io by (simp add: example_imports options_def)
  have d: "get_password_validators example_environment [?good, ?unread, ?bad] = Inl IOError"
    using get_password_validators_resolution
            [where env = example_environment and before = "[?good]" and entry = ?unread
               and after = "[?bad]",
             THEN conjunct2, THEN conjunct1, THEN mp, OF unread]
    by simp
  have stray: "\<exists>k\<in>set (map fst [(''min_length'', PyInt 10)]).
                 k \<notin> set (parameters NoRepeatsValidator_class)"
    by simp
  note type = get_password_validators_resolution
                [where env = example_environment and klass = NoRepeatsValidator_class
                   and kwargs = "[(''min_length'', PyInt 10)]",
                 THEN conjunct2, THEN conjunct2, THEN conjunct1, THEN mp, OF stray]
  have keyword: "list_all2 (constructed example_environment) [?good]
                   [MinimumLengthValidator (PyInt 10)] \<and>
                 import_string example_environment (NAME ?keyword) =
                   Some NoRepeatsValidator_class \<and>
                 construct example_environment NoRepeatsValidator_class (options ?keyword) =
                   Inl TypeError"
    using before type by (simp add: example_imports options_def)
  have e: "get_password_validators example_environment [?good, ?keyword] = Inl TypeError"
    using get_password_validators_resolution
            [where env = example_environment and before = "[?good]" and entry = ?keyword
               and after = "[]",
             THEN conjunct2, THEN conjunct1, THEN mp, OF keyword]
    by simp
  from a b c missing d e show ?thesis
    by (intro conjI)
qed

text \<open>
  Where the claim as it is written fails: the constructor of \<open>MinimumLengthValidator\<close>
  has no parameter \<open>max_repeats\<close>, and its TypeError leaves \<open>get_password_validators\<close>,
  whether a later name is unresolved or every name resolves.
\<close>

theorem get_password_validators_counterexample:
  "resolves example_environment
     \<lparr>NAME = module_path @ ''MinimumLengthValidator'',
      OPTIONS = Some [(''max_repeats'', PyInt 2)]\<rparr> \<and>
   \<not> resolves example_environment \<lparr>NAME = ''no.such.Validator'', OPTIONS = None\<rparr> \<and>
   get_password_validators example_environment
     [\<lparr>NAME = module_path @ ''MinimumLengthValidator'',
       OPTIONS = Some [(''max_repeats'', PyInt 2)]\<rparr>,
      \<lparr>NAME = ''no.such.Validator'', OPTIONS = None\<rparr>] = Inl TypeError \<and>
   get_password_validators example_environment
     [\<lparr>NAME = module_path @ ''MinimumLengthValidator'',
       OPTIONS = Some [(''max_repeats'', PyInt 2)]\<rparr>] = Inl TypeError"
  by (simp add: resolves_def get_password_validators_def example_imports options_def
        accepts_def)



end
